theory Spec2Isabelle
  imports Main "HOL-Library.Sublist"
begin

section \<open>JavaScript values and strings\<close>

text \<open>
  The worker is JavaScript. A value that the code tests against \<open>null\<close> or
  \<open>undefined\<close>, concatenates into a message or passes on to the repository is a
  \<open>jsval\<close>. Strings are byte strings (UTF-8): the only operations on them are
  concatenation, substring search and comparison, which agree on UTF-8 and on
  JavaScript's UTF-16 for well-formed text.
\<close>

datatype jsval = Undefined | Null | Str string | Num int

definition digit_char :: "nat \<Rightarrow> char" where
  "digit_char d = char_of (48 + d)"

function show_nat :: "nat \<Rightarrow> string" where
  "show_nat n = (if n < 10 then [digit_char n] else show_nat (n div 10) @ [digit_char (n mod 10)])"
  by pat_completeness auto
termination
  by (relation "measure id") auto

definition show_int :: "int \<Rightarrow> string" where
  "show_int i = (if i < 0 then CHR ''-'' # show_nat (nat (- i)) else show_nat (nat i))"

text \<open>String conversion as done by \<open>+\<close> with a string operand.\<close>

fun js_str :: "jsval \<Rightarrow> string" where
  "js_str Undefined = ''undefined''"
| "js_str Null = ''null''"
| "js_str (Str s) = s"
| "js_str (Num i) = show_int i"

text \<open>\<open>v != null\<close> is false for both \<open>null\<close> and \<open>undefined\<close>.\<close>

fun is_nullish :: "jsval \<Rightarrow> bool" where
  "is_nullish Undefined = True"
| "is_nullish Null = True"
| "is_nullish (Str s) = False"
| "is_nullish (Num i) = False"

fun truthy :: "jsval \<Rightarrow> bool" where
  "truthy Undefined = False"
| "truthy Null = False"
| "truthy (Str s) = (s \<noteq> [])"
| "truthy (Num i) = (i \<noteq> 0)"

text \<open>\<open>a += s\<close> on a property that holds \<open>a\<close>.\<close>

definition js_append :: "jsval \<Rightarrow> string \<Rightarrow> jsval" where
  "js_append a s = Str (js_str a @ s)"

fun contains :: "string \<Rightarrow> string \<Rightarrow> bool" where
  "contains pat [] = (pat = [])"
| "contains pat (c # cs) = (prefix pat (c # cs) \<or> contains pat cs)"

definition ends_with :: "string \<Rightarrow> string \<Rightarrow> bool" where
  "ends_with s pat = prefix (rev pat) (rev s)"

abbreviation BG_TASK_STATUS_RUNNING :: string where
  "BG_TASK_STATUS_RUNNING \<equiv> ''RUNNING''"

abbreviation BG_TASK_STATUS_DONE :: string where
  "BG_TASK_STATUS_DONE \<equiv> ''DONE''"

abbreviation BG_TASK_STATUS_FAILED :: string where
  "BG_TASK_STATUS_FAILED \<equiv> ''FAILED''"

abbreviation STUDY_STEP_MESHING :: string where
  "STUDY_STEP_MESHING \<equiv> ''meshing''"

abbreviation STUDY_STEP_SIMULATION :: string where
  "STUDY_STEP_SIMULATION \<equiv> ''simulation''"

abbreviation STUDY_STEP_POSTPROC :: string where
  "STUDY_STEP_POSTPROC \<equiv> ''postproc''"

text \<open>
  \<open>REGEXP_SIMULATION_ERROR = /FOAM FATAL ERROR|a diverg\'e|commande introuvable/\<close>,
  as the test \<open>s.match(REGEXP_SIMULATION_ERROR)\<close>: one of the three alternatives
  occurs in \<open>s\<close>. The accented letter is the two bytes C3 A9.
\<close>

definition REGEXP_SIMULATION_ERROR :: "string \<Rightarrow> bool" where
  "REGEXP_SIMULATION_ERROR s =
     (contains ''FOAM FATAL ERROR'' s
      \<or> contains (''a diverg'' @ [CHR 0xC3, CHR 0xA9]) s
      \<or> contains ''commande introuvable'' s)"

text \<open>
  \<open>str.replace(pat, repl)\<close> with a string pattern replaces the first occurrence;
  in the replacement \<open>$$\<close>, \<open>$&\<close>, \<open>$`\<close> and \<open>$'\<close> stand for a dollar sign,
  the match and the text before and after it.
\<close>

fun find_split :: "string \<Rightarrow> string \<Rightarrow> (string \<times> string) option" where
  "find_split pat [] = (if pat = [] then Some ([], []) else None)"
| "find_split pat (c # cs) =
     (if prefix pat (c # cs) then Some ([], drop (length pat) (c # cs))
      else (case find_split pat cs of
              None \<Rightarrow> None
            | Some (b, a) \<Rightarrow> Some (c # b, a)))"

fun get_substitution :: "string \<Rightarrow> string \<Rightarrow> string \<Rightarrow> string \<Rightarrow> string" where
  "get_substitution m b a [] = []"
| "get_substitution m b a [c] = [c]"
| "get_substitution m b a (c # d # r) =
     (if c = CHR ''$'' \<and> d = CHR ''$'' then CHR ''$'' # get_substitution m b a r
      else if c = CHR ''$'' \<and> d = CHR ''&'' then m @ get_substitution m b a r
      else if c = CHR ''$'' \<and> d = CHR 0x60 then b @ get_substitution m b a r
      else if c = CHR ''$'' \<and> d = CHR 0x27 then a @ get_substitution m b a r
      else c # get_substitution m b a (d # r))"

definition js_replace :: "string \<Rightarrow> string \<Rightarrow> string \<Rightarrow> string" where
  "js_replace s pat repl =
     (case find_split pat s of
        None \<Rightarrow> s
      | Some (b, a) \<Rightarrow> b @ get_substitution pat b a repl @ a)"

section \<open>Paths (Node's \<open>path\<close> module on POSIX)\<close>

fun split_slash :: "string \<Rightarrow> string list" where
  "split_slash [] = [[]]"
| "split_slash (c # cs) =
     (if c = CHR ''/'' then [] # split_slash cs
      else (case split_slash cs of
              [] \<Rightarrow> [[c]]
            | x # xs \<Rightarrow> (c # x) # xs))"

text \<open>Segments are normalised on a stack: empty and \<open>.\<close> are dropped, \<open>..\<close> pops.\<close>

fun norm_segs :: "string list \<Rightarrow> string list \<Rightarrow> string list" where
  "norm_segs [] acc = rev acc"
| "norm_segs (s # ss) acc =
     (if s = [] \<or> s = ''.'' then norm_segs ss acc
      else if s = ''..'' then norm_segs ss (tl acc)
      else norm_segs ss (s # acc))"

definition abs_join :: "string list \<Rightarrow> string" where
  "abs_join segs = (if segs = [] then ''/'' else concat (map (\<lambda>s. CHR ''/'' # s) segs))"

text \<open>
  \<open>Path.resolve(a1, ..., an)\<close> for the working directory \<open>cwd\<close> (absolute): an
  absolute argument restarts the path, an empty one is skipped, the result is
  normalised and has no trailing slash.
\<close>

definition path_resolve :: "string \<Rightarrow> string list \<Rightarrow> string" where
  "path_resolve cwd args =
     abs_join (norm_segs (split_slash
       (foldl (\<lambda>cur a. if a = [] then cur
                        else if hd a = CHR ''/'' then a
                        else cur @ ''/'' @ a) cwd args)) [])"

definition basename :: "string \<Rightarrow> string" where
  "basename p = rev (takeWhile (\<lambda>c. c \<noteq> CHR ''/'') (dropWhile (\<lambda>c. c = CHR ''/'') (rev p)))"

definition dirname :: "string \<Rightarrow> string" where
  "dirname p =
     (if p = [] then ''.''
      else (let r = dropWhile (\<lambda>c. c \<noteq> CHR ''/'') (dropWhile (\<lambda>c. c = CHR ''/'') (rev (tl p)))
            in if r = [] then (if hd p = CHR ''/'' then ''/'' else ''.'')
               else if hd p = CHR ''/'' \<and> length r = 1 then ''//''
               else hd p # rev (tl r)))"

section \<open>The local file system\<close>

text \<open>
  A file system maps a path, by its spelling, to a directory or to a file with its
  content. The worker only builds paths with \<open>Path.resolve\<close> and fixed suffixes.
\<close>

datatype fnode = FsDir | FsFile string

type_synonym filesys = "string \<Rightarrow> fnode option"

fun existsSync :: "filesys \<Rightarrow> jsval \<Rightarrow> bool" where
  "existsSync fs (Str p) = (fs p \<noteq> None)"
| "existsSync fs Undefined = False"
| "existsSync fs Null = False"
| "existsSync fs (Num i) = False"

fun isDirectory :: "filesys \<Rightarrow> jsval \<Rightarrow> bool" where
  "isDirectory fs (Str p) = (fs p = Some FsDir)"
| "isDirectory fs Undefined = False"
| "isDirectory fs Null = False"
| "isDirectory fs (Num i) = False"

fun isFile :: "filesys \<Rightarrow> jsval \<Rightarrow> bool" where
  "isFile fs (Str p) = (case fs p of Some (FsFile c) \<Rightarrow> True | Some FsDir \<Rightarrow> False | None \<Rightarrow> False)"
| "isFile fs Undefined = False"
| "isFile fs Null = False"
| "isFile fs (Num i) = False"

text \<open>
  The directories \<open>mkdir -p\<close> visits for a path: every prefix that ends before a
  slash, and the path itself.
\<close>

fun dir_prefixes :: "string \<Rightarrow> string \<Rightarrow> string list" where
  "dir_prefixes pre [] = [pre]"
| "dir_prefixes pre (c # cs) =
     (if c = CHR ''/'' \<and> pre \<noteq> [] then pre # dir_prefixes (pre @ [c]) cs
      else dir_prefixes (pre @ [c]) cs)"

fun make_dirs :: "string list \<Rightarrow> filesys \<Rightarrow> filesys" where
  "make_dirs [] fs = fs"
| "make_dirs (d # ds) fs = make_dirs ds (if fs d = None then fs(d \<mapsto> FsDir) else fs)"

text \<open>
  \<open>Fs.mkdirSync(p, {recursive: true})\<close>: fails when the path or one of its
  ancestors is a file, otherwise creates what is missing.
\<close>

definition mkdirSync :: "string \<Rightarrow> filesys \<Rightarrow> string + filesys" where
  "mkdirSync p fs =
     (if list_ex (\<lambda>d. isFile fs (Str d)) (dir_prefixes [] p)
      then Inl (''EEXIST: file already exists, mkdir '' @ p)
      else Inr (make_dirs (dir_prefixes [] p) fs))"

definition unlinkSync :: "string \<Rightarrow> filesys \<Rightarrow> string + filesys" where
  "unlinkSync p fs =
     (if isFile fs (Str p) then Inr (fs(p := None))
      else Inl (''EPERM: operation not permitted, unlink '' @ p))"

text \<open>What \<open>rm -rf p\<close> leaves: the path and everything below it are gone.\<close>

definition rm_rf :: "string \<Rightarrow> filesys \<Rightarrow> filesys" where
  "rm_rf p fs = (\<lambda>q. if q = p \<or> prefix (p @ ''/'') q then None else fs q)"

section \<open>Objects, rejections and promises\<close>

text \<open>
  The plain objects of the code (a task as the repository returns it, the result of
  a child process, the record a pipeline accumulates) are bags of properties; a
  property that was never set reads \<open>undefined\<close>.
\<close>

record jsobj =
  o_nodeRef :: jsval
  o_status :: jsval
  o_stage :: jsval
  o_stdout :: jsval
  o_stderr :: jsval
  o_filename :: jsval
  o_runId :: jsval
  o_code :: jsval
  o_signal :: jsval
  o_stdour :: jsval

definition empty_obj :: jsobj where
  "empty_obj = \<lparr> o_nodeRef = Undefined, o_status = Undefined, o_stage = Undefined,
     o_stdout = Undefined, o_stderr = Undefined, o_filename = Undefined, o_runId = Undefined,
     o_code = Undefined, o_signal = Undefined, o_stdour = Undefined \<rparr>"

text \<open>
  What a promise is rejected with: an \<open>Error\<close> with its message, a
  \<open>ConfigurationError\<close>, or the plain object \<open>{code, signal, stdout, stderr}\<close> of
  a failed child process.

  Modelled from the spec: the class \<open>ConfigurationError\<close> (required from
  \<open>./ConfigurationError\<close>, which is not among the sources) is an \<open>Error\<close> whose
  message is the string it is constructed with: section 7 has a configuration error
  surfaced as FAILED with the diagnostic string as stderr.
\<close>

datatype rejection = Error string | ConfigurationError string | PlainObject jsobj

datatype 'a outcome = Resolved 'a | Rejected rejection

text \<open>
  The calls a run makes to its collaborators, in order: the repository (claim, task
  update, folder lookup, download, document creation, chunk upload), the operating
  system (spawn, kill) and the active-study registry.
\<close>

datatype event =
    ClaimTask string jsval
  | TaskUpdate string jsval jsval jsval jsval jsval
  | GetChildren jsval string
  | Download jsval string
  | CreateDocument string string jsval jsval
  | PutChunk jsval nat bool
  | Spawn string "jsval list" string
  | Kill int
  | Register string
  | Unregister string

record zip_entry =
  entry_path :: string
  entry_type :: string
  entry_content :: string

text \<open>
  How a spawned child ends: it could not be started (the \<open>error\<close> event), or it
  closed with an exit code or a signal and the output captured so far.
\<close>

datatype proc_end = SpawnError string | Closed "nat option" "string option" string string

text \<open>
  The environment: the configuration (\<open>Config\<close>, \<open>process.cwd()\<close>) and what the
  collaborators answer. An answer may depend on the moment of the call, given as the
  number of calls made before it. A repository answer is the rejection's message or
  the value the client method resolves with; a download and a child process also
  change the file system.
\<close>

record env =
  studiesDir :: string
  processCwd :: string
  airetd_path :: string
  airetd_python :: string
  airetd_programs :: "string \<Rightarrow> string option"
  task_reply :: "nat \<Rightarrow> event \<Rightarrow> string + jsobj"
  children_reply :: "nat \<Rightarrow> event \<Rightarrow> string + jsval list"
  download_reply :: "nat \<Rightarrow> event \<Rightarrow> filesys \<Rightarrow> string option \<times> filesys"
  unzip_reply :: "nat \<Rightarrow> string \<Rightarrow> filesys \<Rightarrow> zip_entry list \<times> string option"
  spawn_reply :: "nat \<Rightarrow> event \<Rightarrow> filesys \<Rightarrow> proc_end \<times> nat option \<times> filesys"
  document_reply :: "nat \<Rightarrow> event \<Rightarrow> string + jsval"
  put_reply :: "nat \<Rightarrow> event \<Rightarrow> string option"
  kill_reply :: "nat \<Rightarrow> event \<Rightarrow> string option"

datatype child = Child "nat option"

record study =
  nodeRef :: string
  nodeId :: string
  path :: string
  sim :: "jsobj option"
  meshing :: "jsobj option"
  step :: "string option"
  child :: "child option"
  result :: "jsobj option"
  pp :: "jsobj option"

text \<open>
  The state a run works on: the \<open>Study\<close> object it was called on, the registry
  \<open>studies\<close>, the file system, the calls made so far and what \<open>Logger.error\<close>
  received.
\<close>

record world =
  self :: study
  studies :: "string \<Rightarrow> study option"
  files :: filesys
  trace :: "event list"
  errors_logged :: "string list"

type_synonym 'a promise = "world \<Rightarrow> 'a outcome \<times> world"

definition resolve :: "'a \<Rightarrow> 'a promise" where
  "resolve x = (\<lambda>w. (Resolved x, w))"

definition reject :: "rejection \<Rightarrow> 'a promise" where
  "reject r = (\<lambda>w. (Rejected r, w))"

definition then_p :: "'a promise \<Rightarrow> ('a \<Rightarrow> 'b promise) \<Rightarrow> 'b promise" where
  "then_p p f = (\<lambda>w. case p w of
       (Resolved x, w') \<Rightarrow> f x w'
     | (Rejected r, w') \<Rightarrow> (Rejected r, w'))"

definition catch_p :: "'a promise \<Rightarrow> (rejection \<Rightarrow> 'a promise) \<Rightarrow> 'a promise" where
  "catch_p p h = (\<lambda>w. case p w of
       (Resolved x, w') \<Rightarrow> (Resolved x, w')
     | (Rejected r, w') \<Rightarrow> h r w')"

definition finally_p :: "'a promise \<Rightarrow> unit promise \<Rightarrow> 'a promise" where
  "finally_p p g = (\<lambda>w. case p w of
       (out, w') \<Rightarrow> (case g w' of
                      (Resolved u, w'') \<Rightarrow> (out, w'')
                    | (Rejected r, w'') \<Rightarrow> (Rejected r, w'')))"

definition emit :: "event \<Rightarrow> world \<Rightarrow> world" where
  "emit ev w = w\<lparr>trace := trace w @ [ev]\<rparr>"

definition modify_self :: "(study \<Rightarrow> study) \<Rightarrow> world \<Rightarrow> world" where
  "modify_self f w = w\<lparr>self := f (self w)\<rparr>"

definition Logger_error :: "string \<Rightarrow> world \<Rightarrow> world" where
  "Logger_error msg w = w\<lparr>errors_logged := errors_logged w @ [msg]\<rparr>"

section \<open>The active-study registry\<close>

definition StudyCache_register :: "study \<Rightarrow> world \<Rightarrow> world" where
  "StudyCache_register s w = emit (Register (nodeRef s)) (w\<lparr>studies := (studies w)(nodeRef s \<mapsto> s)\<rparr>)"

definition StudyCache_unregister :: "study \<Rightarrow> world \<Rightarrow> world" where
  "StudyCache_unregister s w = emit (Unregister (nodeRef s)) (w\<lparr>studies := (studies w)(nodeRef s := None)\<rparr>)"

definition StudyCache_exists :: "world \<Rightarrow> study \<Rightarrow> bool" where
  "StudyCache_exists w s = (studies w (nodeRef s) \<noteq> None)"

definition StudyCache_get :: "world \<Rightarrow> string \<Rightarrow> study option" where
  "StudyCache_get w ref = studies w ref"

section \<open>The repository client\<close>

definition arendel_call :: "env \<Rightarrow> event \<Rightarrow> jsobj promise" where
  "arendel_call env ev = (\<lambda>w.
     case task_reply env (length (trace w)) ev of
       Inl msg \<Rightarrow> (Rejected (Error msg), emit ev w)
     | Inr body \<Rightarrow> (Resolved body, emit ev w))"

definition task_of :: "jsobj \<Rightarrow> jsobj" where
  "task_of m = empty_obj\<lparr>o_nodeRef := o_nodeRef m, o_status := o_status m\<rparr>"

definition claimMeshingTask :: "env \<Rightarrow> string \<Rightarrow> jsobj promise" where
  "claimMeshingTask env ref =
     then_p (arendel_call env (ClaimTask ''meshing'' (Str ref))) (\<lambda>m. resolve (task_of m))"

definition meshingTaskUpdate ::
  "env \<Rightarrow> string \<Rightarrow> jsval \<Rightarrow> jsval \<Rightarrow> jsval \<Rightarrow> jsval \<Rightarrow> jsobj promise" where
  "meshingTaskUpdate env ref status stage out err =
     then_p (arendel_call env (TaskUpdate ''meshing'' (Str ref) status stage out err))
       (\<lambda>m. resolve (task_of m))"

definition claimSimulationTask :: "env \<Rightarrow> jsval \<Rightarrow> jsobj promise" where
  "claimSimulationTask env ref =
     then_p (arendel_call env (ClaimTask ''simulation'' ref))
       (\<lambda>s. resolve ((task_of s)\<lparr>o_runId := o_runId s\<rparr>))"

definition simulationTaskUpdate ::
  "env \<Rightarrow> jsval \<Rightarrow> jsval \<Rightarrow> jsval \<Rightarrow> jsval \<Rightarrow> jsval \<Rightarrow> jsobj promise" where
  "simulationTaskUpdate env ref status stage out err =
     then_p (arendel_call env (TaskUpdate ''simulation'' ref status stage out err))
       (\<lambda>s. resolve (empty_obj\<lparr>o_nodeRef := ref, o_status := o_status s\<rparr>))"

definition claimPostprocTask :: "env \<Rightarrow> string \<Rightarrow> jsobj promise" where
  "claimPostprocTask env ref =
     then_p (arendel_call env (ClaimTask ''postproc'' (Str ref))) (\<lambda>p. resolve (task_of p))"

definition postprocTaskUpdate ::
  "env \<Rightarrow> string \<Rightarrow> jsval \<Rightarrow> jsval \<Rightarrow> jsval \<Rightarrow> jsval \<Rightarrow> jsobj promise" where
  "postprocTaskUpdate env ref status stage out err =
     then_p (arendel_call env (TaskUpdate ''postproc'' (Str ref) status stage out err))
       (\<lambda>p. resolve (task_of p))"

definition getChildren :: "env \<Rightarrow> string \<Rightarrow> string \<Rightarrow> (jsval list) promise" where
  "getChildren env ref wh = (\<lambda>w.
     case children_reply env (length (trace w)) (GetChildren (Str ref) wh) of
       Inl msg \<Rightarrow> (Rejected (Error msg), emit (GetChildren (Str ref) wh) w)
     | Inr ids \<Rightarrow> (Resolved ids, emit (GetChildren (Str ref) wh) w))"

definition getInputFolder :: "env \<Rightarrow> string \<Rightarrow> jsval promise" where
  "getInputFolder env ref =
     then_p (getChildren env ref (''(nodeType='' @ [CHR 0x27] @ ''cfd:inputs'' @ [CHR 0x27] @ '')''))
       (\<lambda>nodes. case nodes of
                   [] \<Rightarrow> reject (Error ''Input folder not found'')
                 | n # ns \<Rightarrow> resolve n)"

definition getPostprocInputFolder :: "env \<Rightarrow> string \<Rightarrow> jsval promise" where
  "getPostprocInputFolder env ref =
     then_p (getChildren env ref (''(nodeType='' @ [CHR 0x27] @ ''cfd:postproc_inputs'' @ [CHR 0x27] @ '')''))
       (\<lambda>nodes. case nodes of
                   [] \<Rightarrow> reject (Error ''Postproc input folder not found'')
                 | n # ns \<Rightarrow> resolve n)"

definition download :: "env \<Rightarrow> jsval \<Rightarrow> string \<Rightarrow> unit promise" where
  "download env nid filename = (\<lambda>w.
     case download_reply env (length (trace w)) (Download nid filename) (files w) of
       (Some msg, fs') \<Rightarrow> (Rejected (Error msg), emit (Download nid filename) (w\<lparr>files := fs'\<rparr>))
     | (None, fs') \<Rightarrow> (Resolved (), emit (Download nid filename) (w\<lparr>files := fs'\<rparr>)))"

subsection \<open>Chunked upload\<close>

definition CHUNK_SIZE :: nat where
  "CHUNK_SIZE = 8 * 1024 * 1024"

definition numChunks_of :: "nat \<Rightarrow> nat" where
  "numChunks_of fileSize = fileSize div CHUNK_SIZE + (if fileSize mod CHUNK_SIZE \<noteq> 0 then 1 else 0)"

text \<open>
  \<open>uploadChunk\<close> reads the next \<open>CHUNK_SIZE\<close> bytes from the current position
  \<open>pos\<close> of a file of \<open>fileSize\<close> bytes, decides \<open>isLastChunk\<close> from the counter
  of chunks already uploaded, sends the chunk, and goes on after a successful answer
  unless the chunk was the last.
\<close>

function uploadChunk :: "env \<Rightarrow> jsval \<Rightarrow> nat \<Rightarrow> nat \<Rightarrow> nat \<Rightarrow> nat \<Rightarrow> unit promise" where
  "uploadChunk env uploadId fileSize numChunks counter pos w =
     (let bytesRead = min CHUNK_SIZE (fileSize - pos);
          isLastChunk = (counter \<ge> numChunks);
          ev = PutChunk uploadId bytesRead isLastChunk
      in case put_reply env (length (trace w)) ev of
           Some msg \<Rightarrow> (Rejected (Error msg), emit ev w)
         | None \<Rightarrow>
             if isLastChunk then (Resolved (), emit ev w)
             else uploadChunk env uploadId fileSize numChunks (counter + 1) (pos + bytesRead) (emit ev w))"
  by pat_completeness auto
termination
  by (relation "measure (\<lambda>(env, uploadId, fileSize, numChunks, counter, pos, w). numChunks - counter)") auto

definition upload :: "env \<Rightarrow> string \<Rightarrow> string \<Rightarrow> jsval \<Rightarrow> jsval \<Rightarrow> jsval \<Rightarrow> unit promise" where
  "upload env studyNodeId name filename relativePath type = (\<lambda>w.
     case filename of
       Str f \<Rightarrow>
         (case files w f of
            None \<Rightarrow> (Rejected (Error (''ENOENT: no such file or directory, stat '' @ f)), w)
          | Some FsDir \<Rightarrow>
              (let ev = CreateDocument studyNodeId name relativePath type
               in case document_reply env (length (trace w)) ev of
                    Inl msg \<Rightarrow> (Rejected (Error ''Client internal error''), emit ev w)
                  | Inr uploadId \<Rightarrow>
                      (Rejected (Error ''EISDIR: illegal operation on a directory, read''), emit ev w))
          | Some (FsFile content) \<Rightarrow>
              (let fileSize = length content;
                   numChunks = numChunks_of fileSize;
                   ev = CreateDocument studyNodeId name relativePath type
               in case document_reply env (length (trace w)) ev of
                    Inl msg \<Rightarrow> (Rejected (Error ''Client internal error''), emit ev w)
                  | Inr uploadId \<Rightarrow> uploadChunk env uploadId fileSize numChunks 0 0 (emit ev w)))
     | Undefined \<Rightarrow> (Rejected (Error ''The path argument must be of type string''), w)
     | Null \<Rightarrow> (Rejected (Error ''The path argument must be of type string''), w)
     | Num i \<Rightarrow> (Rejected (Error ''The path argument must be of type string''), w))"

section \<open>The study: workspace, child processes, archives\<close>

text \<open>
  The constructor takes the study id from the reference with the regular expression
  \<open>/SpacesStore\/(.+)$/\<close>: the first place where \<open>SpacesStore/\<close> is followed, up
  to the end of the string, by at least one character and no line terminator. Without
  a match the id is \<open>undefined\<close> and \<open>Path.resolve\<close> throws.
\<close>

definition has_line_terminator :: "string \<Rightarrow> bool" where
  "has_line_terminator s =
     (CHR 0x0A \<in> set s \<or> CHR 0x0D \<in> set s
      \<or> contains [CHR 0xE2, CHR 0x80, CHR 0xA8] s \<or> contains [CHR 0xE2, CHR 0x80, CHR 0xA9] s)"

fun match_nodeId :: "string \<Rightarrow> string option" where
  "match_nodeId [] = None"
| "match_nodeId (c # cs) =
     (if prefix ''SpacesStore/'' (c # cs) \<and> drop 12 (c # cs) \<noteq> []
         \<and> \<not> has_line_terminator (drop 12 (c # cs))
      then Some (drop 12 (c # cs))
      else match_nodeId cs)"

definition Study :: "env \<Rightarrow> string \<Rightarrow> string + study" where
  "Study env ref =
     (case match_nodeId ref of
        None \<Rightarrow> Inl ''The paths[1] argument must be of type string. Received undefined''
      | Some nid \<Rightarrow>
          Inr \<lparr> nodeRef = ref, nodeId = nid,
                path = path_resolve (processCwd env) [studiesDir env, nid],
                sim = None, meshing = None, step = None, child = None,
                result = None, pp = None \<rparr>)"

text \<open>A synchronous step that may throw, as the body of a \<open>then\<close> callback.\<close>

definition try_sync :: "(world \<Rightarrow> rejection + world) \<Rightarrow> unit promise" where
  "try_sync f = (\<lambda>w. case f w of Inl r \<Rightarrow> (Rejected r, w) | Inr w' \<Rightarrow> (Resolved (), w'))"

definition setup_study :: "world \<Rightarrow> rejection + world" where
  "setup_study w =
     (if \<not> existsSync (files w) (Str (path (self w)))
      then (case mkdirSync (path (self w)) (files w) of
              Inl msg \<Rightarrow> Inl (Error msg)
            | Inr fs' \<Rightarrow> Inr (w\<lparr>files := fs'\<rparr>))
      else Inr w)"

subsection \<open>Argument descriptors and \<open>execute\<close>\<close>

record descriptor =
  opt :: jsval
  val :: jsval
  type :: jsval
  createIfMissing :: bool

definition arg :: "jsval \<Rightarrow> jsval \<Rightarrow> jsval \<Rightarrow> descriptor" where
  "arg n v t = \<lparr> opt = n, val = v, type = t, createIfMissing = False \<rparr>"

definition interpolatePath :: "string \<Rightarrow> string \<Rightarrow> string \<Rightarrow> string" where
  "interpolatePath scriptDir studyDir p =
     js_replace (js_replace p ''{scriptDir}'' scriptDir) ''{studyDir}'' studyDir"

text \<open>
  The program table: a listed program is the script under the toolkit root, which
  must exist, and \<open>scriptDir\<close> is its directory; any other name is used as it is.
  The result is \<open>(script, scriptDir)\<close>.
\<close>

definition resolve_program :: "env \<Rightarrow> string \<Rightarrow> filesys \<Rightarrow> rejection + (string \<times> string)" where
  "resolve_program env prgname fs =
     (case airetd_programs env prgname of
        None \<Rightarrow> Inr (prgname, path_resolve (processCwd env) [studiesDir env])
      | Some rel \<Rightarrow>
          if rel = [] then Inr (prgname, path_resolve (processCwd env) [studiesDir env])
          else (let script = path_resolve (processCwd env) [airetd_path env, rel]
                in if \<not> existsSync fs (Str script)
                   then Inl (ConfigurationError (''wrong configuration of program '' @ prgname
                               @ '': script '' @ script @ '' not found''))
                   else Inr (script, dirname script)))"

text \<open>The \<open>switch (a.type)\<close> of \<open>execute\<close> on the interpolated value.\<close>

definition check_descriptor :: "descriptor \<Rightarrow> jsval \<Rightarrow> filesys \<Rightarrow> rejection option \<times> filesys" where
  "check_descriptor a v fs =
     (if type a = Str ''d'' \<or> type a = Str ''dir'' then
        (if \<not> existsSync fs v then
           (if \<not> createIfMissing a then (Some (ConfigurationError (js_str v @ '' not found'')), fs)
            else (case v of
                    Str p \<Rightarrow>
                      (case mkdirSync p fs of
                         Inl msg \<Rightarrow> (Some (Error msg), fs)
                       | Inr fs' \<Rightarrow>
                           if \<not> existsSync fs' v
                           then (Some (ConfigurationError (''failed to create directory '' @ js_str v)), fs')
                           else if \<not> isDirectory fs' v
                           then (Some (ConfigurationError (js_str v @ '' is not a directory'')), fs')
                           else (None, fs'))
                  | Undefined \<Rightarrow> (Some (Error ''The path argument must be of type string''), fs)
                  | Null \<Rightarrow> (Some (Error ''The path argument must be of type string''), fs)
                  | Num i \<Rightarrow> (Some (Error ''The path argument must be of type string''), fs)))
         else if \<not> isDirectory fs v
         then (Some (ConfigurationError (js_str v @ '' is not a directory'')), fs)
         else (None, fs))
      else if type a = Str ''f'' \<or> type a = Str ''file'' then
        (if \<not> existsSync fs v then (Some (ConfigurationError (js_str v @ '' not found'')), fs)
         else if \<not> isFile fs v then (Some (ConfigurationError (js_str v @ '' is not a file'')), fs)
         else (None, fs))
      else (None, fs))"

definition interpolate_val :: "string \<Rightarrow> string \<Rightarrow> jsval \<Rightarrow> jsval" where
  "interpolate_val scriptDir studyDir v =
     (case v of
        Str s \<Rightarrow> Str (interpolatePath scriptDir studyDir s)
      | Undefined \<Rightarrow> Undefined
      | Null \<Rightarrow> Null
      | Num i \<Rightarrow> Num i)"

text \<open>
  The \<open>args.forEach\<close> loop: the option name, then the interpolated value, then the
  check; the first failing check throws, and directories created before stay.
\<close>

fun build_args ::
  "string \<Rightarrow> string \<Rightarrow> descriptor list \<Rightarrow> jsval list \<Rightarrow> filesys \<Rightarrow> (rejection + jsval list) \<times> filesys" where
  "build_args scriptDir studyDir [] acc fs = (Inr acc, fs)"
| "build_args scriptDir studyDir (a # as) acc fs =
     (let acc1 = (if is_nullish (opt a) then acc else acc @ [opt a])
      in if is_nullish (val a) then build_args scriptDir studyDir as acc1 fs
         else (let v = interpolate_val scriptDir studyDir (val a)
               in case check_descriptor a v fs of
                    (Some r, fs') \<Rightarrow> (Inl r, fs')
                  | (None, fs') \<Rightarrow> build_args scriptDir studyDir as (acc1 @ [v]) fs'))"

definition code_truthy :: "nat option \<Rightarrow> bool" where
  "code_truthy code = (case code of None \<Rightarrow> False | Some c \<Rightarrow> c \<noteq> 0)"

definition signal_truthy :: "string option \<Rightarrow> bool" where
  "signal_truthy signal = (case signal of None \<Rightarrow> False | Some s \<Rightarrow> s \<noteq> [])"

definition code_val :: "nat option \<Rightarrow> jsval" where
  "code_val code = (case code of None \<Rightarrow> Null | Some c \<Rightarrow> Num (int c))"

definition signal_val :: "string option \<Rightarrow> jsval" where
  "signal_val signal = (case signal of None \<Rightarrow> Null | Some s \<Rightarrow> Str s)"

text \<open>What the \<open>close\<close> and \<open>error\<close> handlers settle the promise of \<open>execute\<close> with.\<close>

definition settle_child :: "proc_end \<Rightarrow> jsobj outcome" where
  "settle_child e =
     (case e of
        SpawnError msg \<Rightarrow>
          Rejected (PlainObject (empty_obj\<lparr>o_code := Num (- 127), o_signal := Null,
                                   o_stdout := Str [], o_stderr := Str msg\<rparr>))
      | Closed code signal out err \<Rightarrow>
          if code_truthy code \<or> signal_truthy signal
          then Rejected (PlainObject (empty_obj\<lparr>o_code := code_val code, o_signal := signal_val signal,
                 o_stdout := Str out,
                 o_stderr := Str (err
                   @ (if code_truthy code
                      then [CHR 0x0A] @ ''Terminated with status code: '' @ js_str (code_val code) @ [CHR 0x0A]
                      else [])
                   @ (if signal_truthy signal
                      then [CHR 0x0A] @ ''Terminated by signal: '' @ js_str (signal_val signal) @ [CHR 0x0A]
                      else []))\<rparr>))
          else Resolved (empty_obj\<lparr>o_stdout := Str out, o_stderr := Str err\<rparr>))"

definition log_spawn_error :: "string \<Rightarrow> proc_end \<Rightarrow> world \<Rightarrow> world" where
  "log_spawn_error prgname e w =
     (case e of
        SpawnError msg \<Rightarrow> Logger_error (''failed to start '' @ prgname) w
      | Closed code signal out err \<Rightarrow> w)"

definition execute :: "env \<Rightarrow> string \<Rightarrow> descriptor list \<Rightarrow> string option \<Rightarrow> jsobj promise" where
  "execute env prgname args workDir = (\<lambda>w.
     case resolve_program env prgname (files w) of
       Inl r \<Rightarrow> (Rejected r, w)
     | Inr (script0, scriptDir) \<Rightarrow>
         (let studyDir = path (self w);
              py = ends_with script0 ''.py'';
              script = (if py then airetd_python env else script0);
              args0 = (if py then [Str script0] else [])
          in case build_args scriptDir studyDir args args0 (files w) of
               (Inl r, fs') \<Rightarrow> (Rejected r, w\<lparr>files := fs'\<rparr>)
             | (Inr argv, fs') \<Rightarrow>
                 (let cwd = interpolatePath scriptDir studyDir
                              (case workDir of
                                 None \<Rightarrow> studyDir
                               | Some d \<Rightarrow> if d = [] then studyDir else d);
                      ev = Spawn script argv cwd
                  in case spawn_reply env (length (trace w)) ev fs' of
                       (e, pid, fs'') \<Rightarrow>
                         (settle_child e,
                          log_spawn_error prgname e
                            (modify_self (\<lambda>s. s\<lparr>child := Some (Child pid)\<rparr>)
                               (emit ev (w\<lparr>files := fs''\<rparr>)))))))"

definition cleanup :: "env \<Rightarrow> unit promise" where
  "cleanup env = (\<lambda>w.
     if path (self w) = [] \<or> \<not> existsSync (files w) (Str (path (self w)))
     then (Resolved (), w)
     else then_p (execute env ''rm''
                    [arg (Str ''-rf'') Undefined Undefined,
                     arg Undefined (Str (path (self w))) Undefined]
                    (Some (path_resolve (processCwd env) [studiesDir env])))
            (\<lambda>r. resolve ()) w)"

subsection \<open>Archives\<close>

definition archive_name :: "env \<Rightarrow> study \<Rightarrow> string \<Rightarrow> string" where
  "archive_name env s stage =
     path_resolve (processCwd env) [studiesDir env, nodeId s @ ''-'' @ stage @ ''.7z'']"

definition compress :: "env \<Rightarrow> string \<Rightarrow> descriptor list option \<Rightarrow> string promise" where
  "compress env stage list = (\<lambda>w.
     let filename = archive_name env (self w) stage
     in case (if existsSync (files w) (Str filename) then unlinkSync filename (files w)
              else Inr (files w)) of
          Inl msg \<Rightarrow> (Rejected (Error msg), w)
        | Inr fs' \<Rightarrow>
            then_p (execute env ''7z''
                      ([arg (Str ''a'') Undefined Undefined,
                        arg (Str ''-r'') Undefined Undefined,
                        arg Undefined (Str filename) Undefined]
                       @ (case list of
                            Some l \<Rightarrow> l
                          | None \<Rightarrow> [arg Undefined (Str ''{studyDir}'') (Str ''d'')]))
                      (Some (path_resolve (processCwd env) [studiesDir env])))
              (\<lambda>r. resolve filename) (w\<lparr>files := fs'\<rparr>))"

definition uncompress :: "env \<Rightarrow> string \<Rightarrow> jsobj promise" where
  "uncompress env stage = (\<lambda>w.
     execute env ''7z''
       [arg (Str ''x'') Undefined Undefined,
        arg Undefined (Str (archive_name env (self w) stage)) Undefined]
       (Some (path_resolve (processCwd env) [studiesDir env])) w)"

text \<open>
  The \<open>entry\<close> handler of \<open>extract\<close>: a file entry is piped into a write stream at
  the workspace path, a slash and the base name of the entry's path; any other entry
  is drained. The stream writes when the workspace is a directory and the name does
  not denote a directory. Otherwise it emits an \<open>error\<close> event that nothing listens
  to, and nothing is written; what Node does with such an event, ending the
  process, is outside this model, as is the moment at which a stream finishes
  writing: the writes happen in the order of the entries.
\<close>

definition entry_target :: "string \<Rightarrow> zip_entry \<Rightarrow> string" where
  "entry_target workspace e = workspace @ ''/'' @ basename (entry_path e)"

definition on_entry :: "string \<Rightarrow> zip_entry \<Rightarrow> filesys \<Rightarrow> filesys" where
  "on_entry workspace e fs =
     (if entry_type e = ''File''
      then (if fs workspace = Some FsDir
               \<and> basename (entry_path e) \<noteq> [] \<and> basename (entry_path e) \<noteq> ''.''
               \<and> basename (entry_path e) \<noteq> ''..''
               \<and> fs (entry_target workspace e) \<noteq> Some FsDir
            then fs(entry_target workspace e \<mapsto> FsFile (entry_content e))
            else fs)
      else fs)"

definition extract_zip :: "env \<Rightarrow> string \<Rightarrow> unit promise" where
  "extract_zip env archive = (\<lambda>w.
     case unzip_reply env (length (trace w)) archive (files w) of
       (entries, err) \<Rightarrow>
         (let w' = w\<lparr>files := fold (on_entry (path (self w))) entries (files w)\<rparr>
          in case err of
               None \<Rightarrow> (Resolved (), w')
             | Some msg \<Rightarrow>
                 (Rejected (Error (''Extraction failed, reason: '' @ msg)), Logger_error msg w')))"

section \<open>The stage pipelines\<close>

text \<open>
  A pipeline is the promise chain of the source, \<open>then\<close> by \<open>then\<close>, followed by its
  \<open>catch\<close> and its \<open>finally\<close>. The chain is cut into named segments where a
  property speaks of the state between two steps. The final task update of a
  finaliser is not awaited by the source; here its answer is handled at once, and
  all it can do is log.
\<close>

definition null_access :: rejection where
  "null_access = Error ''Cannot read properties of null''"

fun rejection_text :: "rejection \<Rightarrow> string" where
  "rejection_text (Error msg) = msg"
| "rejection_text (ConfigurationError msg) = msg"
| "rejection_text (PlainObject ob) = ''[object Object]''"

subsection \<open>Meshing\<close>

text \<open>
  \<open>updateMeshingTask(m, stage, stdout, stderr)\<close>; every call passes
  \<open>this.meshing\<close> for \<open>m\<close>, so setting \<open>m.stage\<close> sets it there.
\<close>

definition updateMeshingTask :: "env \<Rightarrow> jsval \<Rightarrow> jsval \<Rightarrow> jsval \<Rightarrow> jsobj promise" where
  "updateMeshingTask env stage out err = (\<lambda>w.
     case meshing (self w) of
       None \<Rightarrow> (Rejected null_access, w)
     | Some m \<Rightarrow>
         (let m' = (if truthy stage then m\<lparr>o_stage := stage\<rparr> else m)
          in meshingTaskUpdate env (nodeRef (self w)) (o_status m') (o_stage m') out err
               (modify_self (\<lambda>s. s\<lparr>meshing := Some m'\<rparr>) w)))"

definition modify_meshing :: "(jsobj \<Rightarrow> jsobj) \<Rightarrow> unit promise" where
  "modify_meshing f = (\<lambda>w.
     case meshing (self w) of
       None \<Rightarrow> (Rejected null_access, w)
     | Some m \<Rightarrow> (Resolved (), modify_self (\<lambda>s. s\<lparr>meshing := Some (f m)\<rparr>) w))"

definition startMeshing_claimed :: "jsobj \<Rightarrow> unit promise" where
  "startMeshing_claimed m = (\<lambda>w.
     let w1 = modify_self (\<lambda>s. s\<lparr>meshing := Some m\<rparr>) w
     in if o_status m \<noteq> Str BG_TASK_STATUS_RUNNING
        then (Rejected (Error (''Invalid meshing status: '' @ js_str (o_status m))), w1)
        else (let w2 = modify_self (\<lambda>s. s\<lparr>step := Some STUDY_STEP_MESHING\<rparr>) w1
              in (Resolved (), StudyCache_register (self w2) w2)))"

definition startMeshing_prepare :: "env \<Rightarrow> unit promise" where
  "startMeshing_prepare env =
     then_p (\<lambda>w. claimMeshingTask env (nodeRef (self w)) w) (\<lambda>m.
     then_p (startMeshing_claimed m) (\<lambda>u.
     then_p (cleanup env) (\<lambda>u.
     try_sync setup_study)))"

definition startMeshing_populate :: "env \<Rightarrow> string \<Rightarrow> unit promise" where
  "startMeshing_populate env archive =
     then_p (updateMeshingTask env (Str ''download input folder'') Undefined Undefined) (\<lambda>t.
     then_p (\<lambda>w. getInputFolder env (nodeRef (self w)) w) (\<lambda>nid.
     then_p (download env nid archive) (\<lambda>u.
     then_p (updateMeshingTask env (Str ''extraction'') Undefined Undefined) (\<lambda>t.
     extract_zip env archive))))"

definition startMeshing_run :: "env \<Rightarrow> unit promise" where
  "startMeshing_run env =
     then_p (updateMeshingTask env (Str ''meshing'') Undefined Undefined) (\<lambda>t.
     then_p (execute env ''preproc''
               [(arg (Str ''-p_working'') (Str ''{studyDir}'') (Str ''d'')),
                (arg (Str ''-p_config'') (Str ''{scriptDir}/computationDict'') (Str ''f'')),
                (arg (Str ''-np_mesh'') (Num 20) Undefined),
                (arg (Str ''-snappy_enable'') (Str ''false'') Undefined)]
               None) (\<lambda>res.
     then_p (modify_meshing (\<lambda>m. m\<lparr>o_stdout := o_stdout res, o_stderr := o_stderr res\<rparr>)) (\<lambda>u.
     then_p (updateMeshingTask env (Str ''compress'') Undefined Undefined) (\<lambda>t.
     then_p (compress env STUDY_STEP_MESHING None) (\<lambda>filename.
     modify_meshing (\<lambda>m. m\<lparr>o_status := Str BG_TASK_STATUS_DONE, o_stage := Str ''done''\<rparr>))))))"

definition startMeshing_steps :: "env \<Rightarrow> string \<Rightarrow> unit promise" where
  "startMeshing_steps env archive =
     then_p (startMeshing_prepare env) (\<lambda>u.
     then_p (startMeshing_populate env archive) (\<lambda>u.
     startMeshing_run env))"

definition startMeshing_catch :: "rejection \<Rightarrow> unit promise" where
  "startMeshing_catch r =
     (case r of
        Error msg \<Rightarrow> (\<lambda>w. (Resolved (), modify_self (\<lambda>s. s\<lparr>meshing :=
            Some (empty_obj\<lparr>o_status := Str BG_TASK_STATUS_FAILED, o_stderr := Str msg, o_stdour := Str []\<rparr>)\<rparr>) w))
      | ConfigurationError msg \<Rightarrow> (\<lambda>w. (Resolved (), modify_self (\<lambda>s. s\<lparr>meshing :=
            Some (empty_obj\<lparr>o_status := Str BG_TASK_STATUS_FAILED, o_stderr := Str msg, o_stdour := Str []\<rparr>)\<rparr>) w))
      | PlainObject res \<Rightarrow>
          modify_meshing (\<lambda>m. m\<lparr>o_stdout := o_stdout res, o_stderr := o_stderr res,
                                  o_status := Str BG_TASK_STATUS_FAILED\<rparr>))"

definition startMeshing_finally :: "env \<Rightarrow> unit promise" where
  "startMeshing_finally env = (\<lambda>w.
     let w1 = StudyCache_unregister (self w) w
     in case meshing (self w1) of
          None \<Rightarrow> (Resolved (), w1)
        | Some m \<Rightarrow>
            (case updateMeshingTask env Null (o_stdout m) (o_stderr m) w1 of
               (Resolved m', w2) \<Rightarrow>
                 if Some (o_status m') \<noteq> map_option o_status (meshing (self w2))
                 then (Resolved (), Logger_error (''Invalid meshing status: '' @ js_str (o_status m')) w2)
                 else (Resolved (), w2)
             | (Rejected r, w2) \<Rightarrow> (Resolved (), Logger_error (rejection_text r) w2)))"

definition startMeshing :: "env \<Rightarrow> unit promise" where
  "startMeshing env = (\<lambda>w.
     if StudyCache_exists w (self w)
     then (Rejected (Error ''Study already under processing''), w)
     else finally_p
            (catch_p
               (startMeshing_steps env
                  (path_resolve (processCwd env) [studiesDir env, nodeId (self w) @ ''.zip'']))
               startMeshing_catch)
            (startMeshing_finally env) w)"

datatype 'a call = Returns "'a outcome" | Throws rejection

text \<open>
  \<open>process.kill(-s.child.pid)\<close>: reading \<open>pid\<close> of \<open>null\<close> throws, and so does a
  pid that is not a number; the signal goes to the process group.
\<close>

definition kill_group :: "env \<Rightarrow> study \<Rightarrow> world \<Rightarrow> (jsobj option) call \<times> world" where
  "kill_group env s w =
     (case child s of
        None \<Rightarrow> (Throws null_access, w)
      | Some (Child None) \<Rightarrow> (Throws (Error ''The pid argument must be of type number''), w)
      | Some (Child (Some pid)) \<Rightarrow>
          (case kill_reply env (length (trace w)) (Kill (- int pid)) of
             Some msg \<Rightarrow> (Throws (Error msg), emit (Kill (- int pid)) w)
           | None \<Rightarrow> (Returns (Resolved None), emit (Kill (- int pid)) w)))"

definition returns_task :: "jsobj outcome \<times> world \<Rightarrow> (jsobj option) call \<times> world" where
  "returns_task x =
     (case x of
        (Resolved t, w) \<Rightarrow> (Returns (Resolved (Some t)), w)
      | (Rejected r, w) \<Rightarrow> (Returns (Rejected r), w))"

definition abortMeshing :: "env \<Rightarrow> world \<Rightarrow> (jsobj option) call \<times> world" where
  "abortMeshing env w =
     (case StudyCache_get w (nodeRef (self w)) of
        None \<Rightarrow>
          returns_task (meshingTaskUpdate env (nodeRef (self w)) (Str BG_TASK_STATUS_FAILED)
                          Undefined Undefined Undefined w)
      | Some s \<Rightarrow>
          if step s \<noteq> Some STUDY_STEP_MESHING
          then (Returns (Rejected (Error ''Study is not running the meshing step'')), w)
          else kill_group env s w)"

subsection \<open>Simulation\<close>

text \<open>
  \<open>updateSimulationTask(sim, res, stage)\<close>; every call passes \<open>self.sim\<close> and
  \<open>self.result\<close>.
\<close>

definition updateSimulationTask :: "env \<Rightarrow> jsval \<Rightarrow> jsobj promise" where
  "updateSimulationTask env stage = (\<lambda>w.
     case result (self w) of
       None \<Rightarrow> (Rejected null_access, w)
     | Some res \<Rightarrow>
         (let res' = (if truthy stage then res\<lparr>o_stage := stage\<rparr> else res);
              w' = modify_self (\<lambda>s. s\<lparr>result := Some res'\<rparr>) w
          in case sim (self w) of
               None \<Rightarrow> (Rejected null_access, w')
             | Some sm \<Rightarrow>
                 simulationTaskUpdate env (o_nodeRef sm) (o_status res') (o_stage res')
                   (o_stdout res') (o_stderr res') w'))"

definition modify_result :: "(jsobj \<Rightarrow> jsobj) \<Rightarrow> unit promise" where
  "modify_result f = (\<lambda>w.
     case result (self w) of
       None \<Rightarrow> (Rejected null_access, w)
     | Some res \<Rightarrow> (Resolved (), modify_self (\<lambda>s. s\<lparr>result := Some (f res)\<rparr>) w))"

definition modify_sim :: "(jsobj \<Rightarrow> jsobj) \<Rightarrow> unit promise" where
  "modify_sim f = (\<lambda>w.
     case sim (self w) of
       None \<Rightarrow> (Rejected null_access, w)
     | Some sm \<Rightarrow> (Resolved (), modify_self (\<lambda>s. s\<lparr>sim := Some (f sm)\<rparr>) w))"

definition startSimulation_claimed :: "jsobj \<Rightarrow> unit promise" where
  "startSimulation_claimed sm = (\<lambda>w.
     if o_status sm \<noteq> Str BG_TASK_STATUS_RUNNING
     then (Rejected (Error (''Invalid simulation status: '' @ js_str (o_status sm))), w)
     else (let w1 = modify_self (\<lambda>s. s\<lparr>sim := Some sm, step := Some STUDY_STEP_SIMULATION\<rparr>) w
           in (Resolved (), StudyCache_register (self w1) w1)))"

definition startSimulation_prepare :: "env \<Rightarrow> jsval \<Rightarrow> unit promise" where
  "startSimulation_prepare env simNodeRef =
     then_p (claimSimulationTask env simNodeRef) (\<lambda>sm.
     then_p (startSimulation_claimed sm) (\<lambda>u.
     cleanup env))"

definition startSimulation_populate :: "env \<Rightarrow> jsobj promise" where
  "startSimulation_populate env =
     then_p (updateSimulationTask env (Str ''uncompress'')) (\<lambda>t.
     uncompress env STUDY_STEP_MESHING)"

definition startSimulation_simulate :: "env \<Rightarrow> jsobj promise" where
  "startSimulation_simulate env =
     then_p (updateSimulationTask env (Str ''simulation'')) (\<lambda>t. (\<lambda>w.
     execute env ''simulation''
       [(arg (Str ''-p'') (Str ''{studyDir}'') (Str ''d'')),
        (arg (Str ''-e'') (Str (nodeId (self w))) Undefined),
        (arg (Str ''-n'') (Num 30) Undefined),
        (arg (Str ''-s'') (Str ''1.5'') Undefined)]
       None w))"

text \<open>The log check after the simulation: the status the finaliser will report.\<close>

definition simulation_verdict :: "jsobj \<Rightarrow> string option" where
  "simulation_verdict res =
     (case o_stderr res of
        Str e \<Rightarrow>
          if REGEXP_SIMULATION_ERROR e then Some BG_TASK_STATUS_FAILED
          else (case o_stdout res of
                  Str ot \<Rightarrow> if REGEXP_SIMULATION_ERROR ot then Some BG_TASK_STATUS_FAILED
                            else Some BG_TASK_STATUS_DONE
                | Undefined \<Rightarrow> None
                | Null \<Rightarrow> None
                | Num i \<Rightarrow> None)
      | Undefined \<Rightarrow> None
      | Null \<Rightarrow> None
      | Num i \<Rightarrow> None)"

definition startSimulation_checked :: "jsobj \<Rightarrow> unit promise" where
  "startSimulation_checked res = (\<lambda>w.
     let w1 = modify_self (\<lambda>s. s\<lparr>result := Some (res\<lparr>o_status := Str BG_TASK_STATUS_RUNNING\<rparr>)\<rparr>) w
     in case simulation_verdict res of
          None \<Rightarrow> (Rejected null_access, w1)
        | Some st \<Rightarrow> modify_sim (\<lambda>sm. sm\<lparr>o_status := Str st\<rparr>) w1)"

definition startSimulation_pack :: "env \<Rightarrow> jsobj \<Rightarrow> jsval promise" where
  "startSimulation_pack env res =
     then_p (startSimulation_checked res) (\<lambda>u.
     then_p (updateSimulationTask env (Str ''compressing'')) (\<lambda>t.
     then_p (compress env STUDY_STEP_SIMULATION None) (\<lambda>filename.
     resolve (Str filename))))"

text \<open>The chain up to the exit of the simulation program, and the whole chain.\<close>

definition startSimulation_until_exit :: "env \<Rightarrow> jsval \<Rightarrow> jsobj promise" where
  "startSimulation_until_exit env simNodeRef =
     then_p (startSimulation_prepare env simNodeRef) (\<lambda>u.
     then_p (startSimulation_populate env) (\<lambda>r.
     startSimulation_simulate env))"

definition startSimulation_steps :: "env \<Rightarrow> jsval \<Rightarrow> jsval promise" where
  "startSimulation_steps env simNodeRef =
     then_p (startSimulation_until_exit env simNodeRef) (\<lambda>res.
     startSimulation_pack env res)"

definition startSimulation_catch :: "rejection \<Rightarrow> jsval promise" where
  "startSimulation_catch r =
     then_p (modify_result (\<lambda>res. res\<lparr>o_status := Str BG_TASK_STATUS_FAILED\<rparr>)) (\<lambda>u.
     then_p (case r of
               Error msg \<Rightarrow>
                 modify_result (\<lambda>res. res\<lparr>o_stderr := js_append (o_stderr res) ([CHR 0x0A] @ msg)\<rparr>)
             | ConfigurationError msg \<Rightarrow>
                 modify_result (\<lambda>res. res\<lparr>o_stderr := js_append (o_stderr res) ([CHR 0x0A] @ msg)\<rparr>)
             | PlainObject ob \<Rightarrow>
                 modify_result (\<lambda>res. res\<lparr>
                   o_stdout := js_append (o_stdout res) ([CHR 0x0A] @ js_str (o_stdout ob)),
                   o_stderr := js_append (o_stderr res) ([CHR 0x0A] @ js_str (o_stderr ob))\<rparr>)) (\<lambda>u.
     resolve Undefined))"

definition final_status :: "jsobj \<Rightarrow> jsobj \<Rightarrow> jsval" where
  "final_status sm res =
     (if o_status res = Str BG_TASK_STATUS_RUNNING
      then (if o_status sm \<noteq> Str BG_TASK_STATUS_RUNNING then o_status sm
            else Str BG_TASK_STATUS_FAILED)
      else o_status res)"

definition startSimulation_finally :: "env \<Rightarrow> unit promise" where
  "startSimulation_finally env = (\<lambda>w.
     let w1 = StudyCache_unregister (self w) w
     in case sim (self w1) of
          None \<Rightarrow> (Resolved (), w1)
        | Some sm \<Rightarrow>
            (case result (self w1) of
               None \<Rightarrow> (Rejected null_access, w1)
             | Some res \<Rightarrow>
                 (let w2 = modify_self (\<lambda>s. s\<lparr>result := Some (res\<lparr>o_status := final_status sm res\<rparr>)\<rparr>) w1
                  in case updateSimulationTask env Undefined w2 of
                       (Resolved s', w3) \<Rightarrow>
                         if Some (o_status s') \<noteq> map_option o_status (result (self w3))
                         then (Resolved (), Logger_error (''Invalid simulation status: '' @ js_str (o_status s')) w3)
                         else (Resolved (), w3)
                     | (Rejected r, w3) \<Rightarrow> (Resolved (), Logger_error (rejection_text r) w3))))"

definition startSimulation_init :: "world \<Rightarrow> world" where
  "startSimulation_init w =
     modify_self (\<lambda>s. s\<lparr>result := Some (empty_obj\<lparr>o_status := Str BG_TASK_STATUS_RUNNING,
        o_stage := Null, o_stdout := Str [], o_stderr := Str [], o_filename := Null\<rparr>)\<rparr>) w"

definition startSimulation :: "env \<Rightarrow> jsval \<Rightarrow> jsval promise" where
  "startSimulation env simNodeRef = (\<lambda>w.
     if StudyCache_exists w (self w)
     then (Rejected (Error ''Study already under processing''), w)
     else finally_p
            (catch_p (startSimulation_steps env simNodeRef) startSimulation_catch)
            (startSimulation_finally env) (startSimulation_init w))"

definition abortSimulation :: "env \<Rightarrow> jsval \<Rightarrow> world \<Rightarrow> (jsobj option) call \<times> world" where
  "abortSimulation env simNodeRef w =
     (case StudyCache_get w (nodeRef (self w)) of
        None \<Rightarrow>
          returns_task (simulationTaskUpdate env simNodeRef (Str BG_TASK_STATUS_FAILED)
                          Null (Str []) (Str ''user aborted'') w)
      | Some s \<Rightarrow>
          if step s \<noteq> Some STUDY_STEP_SIMULATION
          then (Returns (Rejected (Error ''Study is not running the simulation step'')), w)
          else (case sim s of
                  None \<Rightarrow> (Throws null_access, w)
                | Some sm \<Rightarrow>
                    if o_nodeRef sm \<noteq> simNodeRef
                    then returns_task (simulationTaskUpdate env simNodeRef (Str BG_TASK_STATUS_FAILED)
                                         Null (Str []) (Str ''user aborted'') w)
                    else kill_group env s w))"

subsection \<open>Post-processing\<close>

definition updatePostprocTask :: "env \<Rightarrow> jsval \<Rightarrow> jsobj promise" where
  "updatePostprocTask env stage = (\<lambda>w.
     case result (self w) of
       None \<Rightarrow> (Rejected null_access, w)
     | Some res \<Rightarrow>
         (let res' = (if truthy stage then res\<lparr>o_stage := stage\<rparr> else res)
          in postprocTaskUpdate env (nodeRef (self w)) (o_status res') (o_stage res')
               (o_stdout res') (o_stderr res')
               (modify_self (\<lambda>s. s\<lparr>result := Some res'\<rparr>) w)))"

definition postproc_claimed :: "jsobj \<Rightarrow> unit promise" where
  "postproc_claimed p = (\<lambda>w.
     if o_status p \<noteq> Str BG_TASK_STATUS_RUNNING
     then (Rejected (Error (''Invalid postproc status: '' @ js_str (o_status p))), w)
     else (let w1 = modify_self (\<lambda>s. s\<lparr>pp := Some p, step := Some STUDY_STEP_POSTPROC\<rparr>) w
           in case modify_result (\<lambda>res. res\<lparr>o_status := Str BG_TASK_STATUS_RUNNING\<rparr>) w1 of
                (Rejected r, w2) \<Rightarrow> (Rejected r, w2)
              | (Resolved u, w2) \<Rightarrow> (Resolved (), StudyCache_register (self w2) w2)))"

definition postproc_prepare :: "env \<Rightarrow> unit promise" where
  "postproc_prepare env =
     then_p (\<lambda>w. claimPostprocTask env (nodeRef (self w)) w) (\<lambda>p.
     then_p (postproc_claimed p) (\<lambda>u.
     cleanup env))"

definition postproc_populate :: "env \<Rightarrow> string \<Rightarrow> unit promise" where
  "postproc_populate env archive =
     then_p (updatePostprocTask env (Str ''uncompress'')) (\<lambda>t.
     then_p (uncompress env STUDY_STEP_SIMULATION) (\<lambda>r.
     then_p (\<lambda>w. getPostprocInputFolder env (nodeRef (self w)) w) (\<lambda>nid.
     then_p (download env nid archive) (\<lambda>u.
     then_p (updatePostprocTask env (Str ''extraction'')) (\<lambda>t.
     extract_zip env archive)))))"

text \<open>\<open>self.result = result; self.result.status = BG_TASK_STATUS_RUNNING\<close>.\<close>

definition keep_result :: "jsobj \<Rightarrow> unit promise" where
  "keep_result res = (\<lambda>w.
     (Resolved (), modify_self (\<lambda>s. s\<lparr>result := Some (res\<lparr>o_status := Str BG_TASK_STATUS_RUNNING\<rparr>)\<rparr>) w))"

definition postproc_emiCalc :: "env \<Rightarrow> unit promise" where
  "postproc_emiCalc env =
     then_p (updatePostprocTask env (Str ''emiCalc'')) (\<lambda>t.
     then_p (execute env ''emiCalc''
               [(arg (Str ''-p_input'') (Str ''{studyDir}'') (Str ''d'')),
                (arg (Str ''-p_output'') (Str ''{studyDir}/emiCalc'') (Str ''d''))\<lparr>createIfMissing := True\<rparr>]
               (Some ''{scriptDir}'')) (\<lambda>res.
     then_p (keep_result res) (\<lambda>u.
     (case o_stderr res of
        Str e \<Rightarrow> if contains ''IndexError:'' e then reject (Error ''emicalc failed.'') else resolve ()
      | Undefined \<Rightarrow> reject null_access
      | Null \<Rightarrow> reject null_access
      | Num i \<Rightarrow> reject null_access))))"

definition postproc_meanAndConcat :: "env \<Rightarrow> unit promise" where
  "postproc_meanAndConcat env =
     then_p (updatePostprocTask env (Str ''meanAndConcat'')) (\<lambda>t.
     then_p (execute env ''meanAndConcat''
               [(arg (Str ''-p_working'') (Str ''{studyDir}'') (Str ''d'')),
                (arg (Str ''-p_output'') (Str ''{studyDir}/probes_treated'') (Str ''d''))\<lparr>createIfMissing := True\<rparr>]
               None) (\<lambda>res.
     keep_result res))"

definition postproc_probesMeanYear :: "env \<Rightarrow> unit promise" where
  "postproc_probesMeanYear env =
     then_p (updatePostprocTask env (Str ''probesMeanYear'')) (\<lambda>t.
     then_p (execute env ''probesMeanYear''
               [(arg (Str ''-p_working'') (Str ''{studyDir}'') (Str ''d'')),
                (arg (Str ''-p_probes_treated'') (Str ''{studyDir}/probes_treated'') (Str ''d'')),
                (arg (Str ''-p_freq'') (Str ''{studyDir}/frequencesVent'') (Str ''f'')),
                (arg (Str ''-p_sigmo'') (Str ''{studyDir}/parametresSigmoide'') (Str ''f'')),
                (arg (Str ''-p_config'') (Str ''{scriptDir}/config'') (Str ''f''))]
               None) (\<lambda>res.
     keep_result res))"

definition postproc_polluant :: "env \<Rightarrow> unit promise" where
  "postproc_polluant env =
     then_p (updatePostprocTask env (Str ''polluant'')) (\<lambda>t.
     then_p (execute env ''polluant''
               [(arg (Str ''-p_scale'') (Str ''{studyDir}/settings_for_images'') (Str ''f'')),
                (arg (Str ''-p_logo'') (Str ''{scriptDir}/Logo_airetd.png'') (Str ''f'')),
                (arg (Str ''-p_treated_data'') (Str ''{studyDir}/probes_treated'') (Str ''d''))]
               None) (\<lambda>res.
     keep_result res))"

definition postproc_pack :: "env \<Rightarrow> unit promise" where
  "postproc_pack env =
     then_p (updatePostprocTask env (Str ''compress'')) (\<lambda>t.
     then_p (compress env STUDY_STEP_POSTPROC
               (Some [(arg Undefined (Str ''{studyDir}/emiCalc'') (Str ''d'')),
                      (arg Undefined (Str ''{studyDir}/probes_treated'') (Str ''d''))])) (\<lambda>filename.
     then_p (modify_result (\<lambda>res. res\<lparr>o_filename := Str filename\<rparr>)) (\<lambda>u.
     then_p (updatePostprocTask env (Str ''uploading'')) (\<lambda>t.
     then_p (\<lambda>w. case result (self w) of
                    None \<Rightarrow> (Rejected null_access, w)
                  | Some res \<Rightarrow>
                      upload env (nodeId (self w)) ''final-results.7z'' (o_filename res)
                        (Str ''${cfd.postproc}'') (Str ''cfd:postproc_result'') w) (\<lambda>u.
     modify_result (\<lambda>res. if o_status res = Str BG_TASK_STATUS_RUNNING
                            then res\<lparr>o_status := Str BG_TASK_STATUS_DONE\<rparr> else res))))))"

text \<open>The chain up to the step that reports \<open>probesMeanYear\<close>.\<close>

definition postproc_until_probes :: "env \<Rightarrow> string \<Rightarrow> unit promise" where
  "postproc_until_probes env archive =
     then_p (postproc_prepare env) (\<lambda>u.
     then_p (postproc_populate env archive) (\<lambda>u.
     then_p (postproc_emiCalc env) (\<lambda>u.
     postproc_meanAndConcat env)))"

definition postproc_steps :: "env \<Rightarrow> string \<Rightarrow> unit promise" where
  "postproc_steps env archive =
     then_p (postproc_until_probes env archive) (\<lambda>u.
     then_p (postproc_probesMeanYear env) (\<lambda>u.
     then_p (postproc_polluant env) (\<lambda>u.
     postproc_pack env)))"

definition postproc_catch :: "rejection \<Rightarrow> unit promise" where
  "postproc_catch r =
     then_p (modify_result (\<lambda>res. res\<lparr>o_status := Str BG_TASK_STATUS_FAILED\<rparr>)) (\<lambda>u.
     (case r of
        Error msg \<Rightarrow> modify_result (\<lambda>res. res\<lparr>o_stderr := Str msg, o_stdout := Str []\<rparr>)
      | ConfigurationError msg \<Rightarrow> modify_result (\<lambda>res. res\<lparr>o_stderr := Str msg, o_stdout := Str []\<rparr>)
      | PlainObject ob \<Rightarrow> modify_result (\<lambda>res. res\<lparr>o_stdout := o_stdout ob, o_stderr := o_stderr ob\<rparr>)))"

definition postproc_finally :: "env \<Rightarrow> unit promise" where
  "postproc_finally env = (\<lambda>w.
     let w1 = StudyCache_unregister (self w) w
     in case pp (self w1) of
          None \<Rightarrow> (Resolved (), w1)
        | Some p \<Rightarrow>
            (case result (self w1) of
               None \<Rightarrow> (Rejected null_access, w1)
             | Some res \<Rightarrow>
                 (case updatePostprocTask env Undefined w1 of
                    (Resolved p', w2) \<Rightarrow>
                      if Some (o_status p') \<noteq> map_option o_status (result (self w2))
                      then (Resolved (), Logger_error (''Invalid postprocess status: '' @ js_str (o_status p')) w2)
                      else (Resolved (), w2)
                  | (Rejected r, w2) \<Rightarrow> (Resolved (), Logger_error (rejection_text r) w2))))"

definition postproc_init :: "world \<Rightarrow> world" where
  "postproc_init w =
     modify_self (\<lambda>s. s\<lparr>result := Some (empty_obj\<lparr>o_status := Str BG_TASK_STATUS_RUNNING\<rparr>)\<rparr>) w"

definition postproc_archive :: "env \<Rightarrow> study \<Rightarrow> string" where
  "postproc_archive env s =
     path_resolve (processCwd env) [studiesDir env, nodeId s @ ''-postprocInputs.zip'']"

text \<open>
  \<open>postproc\<close> calls \<open>this.setup()\<close> before it builds the chain, so a failing
  \<open>mkdir\<close> is thrown to the caller and no finaliser runs.
\<close>

definition postproc :: "env \<Rightarrow> world \<Rightarrow> unit call \<times> world" where
  "postproc env w =
     (if StudyCache_exists w (self w)
      then (Returns (Rejected (Error ''Study already under processing'')), w)
      else (case setup_study w of
              Inl r \<Rightarrow> (Throws r, w)
            | Inr w1 \<Rightarrow>
                (case finally_p
                        (catch_p (postproc_steps env (postproc_archive env (self w1))) postproc_catch)
                        (postproc_finally env) (postproc_init w1) of
                   (out, w') \<Rightarrow> (Returns out, w'))))"

definition abortPostproc :: "env \<Rightarrow> world \<Rightarrow> (jsobj option) call \<times> world" where
  "abortPostproc env w =
     (case StudyCache_get w (nodeRef (self w)) of
        None \<Rightarrow>
          returns_task (postprocTaskUpdate env (nodeRef (self w)) (Str BG_TASK_STATUS_FAILED)
                          Null (Str []) (Str ''user aborted'') w)
      | Some s \<Rightarrow>
          if step s \<noteq> Some STUDY_STEP_POSTPROC
          then (Returns (Rejected (Error ''Study is not running the postprocessing step'')), w)
          else kill_group env s w)"

section \<open>Observations on a run\<close>

fun is_spawn :: "event \<Rightarrow> bool" where
  "is_spawn (Spawn script argv cwd) = True"
| "is_spawn (ClaimTask stage ref) = False"
| "is_spawn (TaskUpdate stage ref status label out err) = False"
| "is_spawn (GetChildren ref wh) = False"
| "is_spawn (Download nid filename) = False"
| "is_spawn (CreateDocument nid name rel ty) = False"
| "is_spawn (PutChunk uploadId len isLast) = False"
| "is_spawn (Kill pid) = False"
| "is_spawn (Register ref) = False"
| "is_spawn (Unregister ref) = False"

fun is_register :: "event \<Rightarrow> bool" where
  "is_register (Register ref) = True"
| "is_register (Spawn script argv cwd) = False"
| "is_register (ClaimTask stage ref) = False"
| "is_register (TaskUpdate stage ref status label out err) = False"
| "is_register (GetChildren ref wh) = False"
| "is_register (Download nid filename) = False"
| "is_register (CreateDocument nid name rel ty) = False"
| "is_register (PutChunk uploadId len isLast) = False"
| "is_register (Kill pid) = False"
| "is_register (Unregister ref) = False"

text \<open>The calls a run added to the trace it started from.\<close>

definition new_events :: "world \<Rightarrow> world \<Rightarrow> event list" where
  "new_events w w' = drop (length (trace w)) (trace w')"

text \<open>The status a task update carries.\<close>

fun update_status :: "event \<Rightarrow> jsval option" where
  "update_status (TaskUpdate stage ref status label out err) = Some status"
| "update_status (Spawn script argv cwd) = None"
| "update_status (ClaimTask stage ref) = None"
| "update_status (GetChildren ref wh) = None"
| "update_status (Download nid filename) = None"
| "update_status (CreateDocument nid name rel ty) = None"
| "update_status (PutChunk uploadId len isLast) = None"
| "update_status (Kill pid) = None"
| "update_status (Register ref) = None"
| "update_status (Unregister ref) = None"

fun update_stderr :: "event \<Rightarrow> jsval option" where
  "update_stderr (TaskUpdate stage ref status label out err) = Some err"
| "update_stderr (Spawn script argv cwd) = None"
| "update_stderr (ClaimTask stage ref) = None"
| "update_stderr (GetChildren ref wh) = None"
| "update_stderr (Download nid filename) = None"
| "update_stderr (CreateDocument nid name rel ty) = None"
| "update_stderr (PutChunk uploadId len isLast) = None"
| "update_stderr (Kill pid) = None"
| "update_stderr (Register ref) = None"
| "update_stderr (Unregister ref) = None"

text \<open>A step keeps a property of the study object, however it ends.\<close>

definition preserves :: "(study \<Rightarrow> bool) \<Rightarrow> 'a promise \<Rightarrow> bool" where
  "preserves P p = (\<forall>w out w'. P (self w) \<longrightarrow> p w = (out, w') \<longrightarrow> P (self w'))"

text \<open>A path strictly inside a directory, and a directory with nothing inside.\<close>

definition below :: "string \<Rightarrow> string \<Rightarrow> bool" where
  "below p q = prefix (p @ ''/'') q"

definition dir_empty :: "filesys \<Rightarrow> string \<Rightarrow> bool" where
  "dir_empty fs p = (\<forall>q. below p q \<longrightarrow> fs q = None)"

text \<open>A path that \<open>interpolatePath\<close> leaves alone: it holds no placeholder.\<close>

definition plain_path :: "string \<Rightarrow> bool" where
  "plain_path p = (find_split ''{scriptDir}'' p = None \<and> find_split ''{studyDir}'' p = None)"

text \<open>
  The assumption on the external \<open>rm\<close>: when a child that was started with the
  arguments \<open>-rf p\<close> exits successfully, the path and all below it are gone and
  nothing else has changed.
\<close>

definition rm_removes :: "env \<Rightarrow> bool" where
  "rm_removes env =
     (\<forall>n script pre p cwd fs e pid fs' r.
        spawn_reply env n (Spawn script (pre @ [Str ''-rf'', Str p]) cwd) fs = (e, pid, fs')
        \<longrightarrow> settle_child e = Resolved r \<longrightarrow> fs' = rm_rf p fs)"

text \<open>The repository answers the task update of a stage made at moment \<open>n\<close>.\<close>

definition accepts_update :: "env \<Rightarrow> nat \<Rightarrow> string \<Rightarrow> bool" where
  "accepts_update env n stage =
     (\<forall>ref status label out err.
        \<exists>body. task_reply env n (TaskUpdate stage ref status label out err) = Inr body)"




text \<open>
  The study as the finaliser of the simulation pipeline must find it to report
  FAILED: a claimed simulation and a result whose final status is FAILED.
\<close>

definition verdict_failed :: "study \<Rightarrow> bool" where
  "verdict_failed s =
     (case sim s of
        None \<Rightarrow> False
      | Some sm \<Rightarrow>
          (case result s of
             None \<Rightarrow> False
           | Some res \<Rightarrow> final_status sm res = Str BG_TASK_STATUS_FAILED))"

section \<open>Example environments\<close>

text \<open>
  A study as the constructor builds it, in a process with an empty registry and an
  empty file system, and a repository that grants every claim and accepts every
  update with the status it was sent. In this environment \<open>rm -rf\<close> removes its
  target, \<open>7z x\<close> restores the workspace directory, \<open>7z a\<close> writes the archive,
  and the simulation exits with code 0 after reporting a divergence.
\<close>

definition example_study :: study where
  "example_study = \<lparr> nodeRef = ''workspace://SpacesStore/e72baac6'', nodeId = ''e72baac6'',
     path = ''/srv/studies/e72baac6'', sim = None, meshing = None, step = None, child = None,
     result = None, pp = None \<rparr>"

definition example_world :: world where
  "example_world = \<lparr> self = example_study, studies = Map.empty, files = Map.empty,
     trace = [], errors_logged = [] \<rparr>"

definition rm_target :: "jsval list \<Rightarrow> string option" where
  "rm_target argv =
     (case rev argv of
        Str p # Str f # rest \<Rightarrow> if f = ''-rf'' then Some p else None
      | _ \<Rightarrow> None)"

definition example_task_reply :: "nat \<Rightarrow> event \<Rightarrow> string + jsobj" where
  "example_task_reply n ev =
     (case ev of
        ClaimTask stage ref \<Rightarrow> Inr (empty_obj\<lparr>o_nodeRef := ref, o_status := Str BG_TASK_STATUS_RUNNING\<rparr>)
      | TaskUpdate stage ref status label out err \<Rightarrow> Inr (empty_obj\<lparr>o_nodeRef := ref, o_status := status\<rparr>)
      | _ \<Rightarrow> Inl ''Client internal error'')"

definition example_spawn_reply :: "nat \<Rightarrow> event \<Rightarrow> filesys \<Rightarrow> proc_end \<times> nat option \<times> filesys" where
  "example_spawn_reply n ev fs =
     (case ev of
        Spawn script argv cwd \<Rightarrow>
          (case rm_target argv of
             Some p \<Rightarrow> (Closed (Some 0) None [] [], Some 4242, rm_rf p fs)
           | None \<Rightarrow>
               if script = ''7z'' \<and> take 1 argv = [Str ''x'']
               then (Closed (Some 0) None [] [], Some 4243, fs(''/srv/studies/e72baac6'' \<mapsto> FsDir))
               else if script = ''7z'' \<and> take 2 argv = [Str ''a'', Str ''-r'']
               then (Closed (Some 0) None [] [], Some 4244, fs(js_str (argv ! 2) \<mapsto> FsFile ''7z''))
               else if script = ''simulation''
               then (Closed (Some 0) None ''Time = 1''
                       (''le calcul a diverg'' @ [CHR 0xC3, CHR 0xA9]), Some 4245, fs)
               else (Closed (Some 0) None [] [], Some 4246, fs))
      | _ \<Rightarrow> (SpawnError ''spawn ENOENT'', None, fs))"

definition example_env :: env where
  "example_env = \<lparr> studiesDir = ''/srv/studies'', processCwd = ''/srv'',
     airetd_path = ''/opt/airetd'', airetd_python = ''/usr/bin/python3'',
     airetd_programs = Map.empty,
     task_reply = example_task_reply,
     children_reply = (\<lambda>n ev. Inr [Str ''folder-1'']),
     download_reply = (\<lambda>n ev fs.
        case ev of Download nid filename \<Rightarrow> (None, fs(filename \<mapsto> FsFile ''PK'')) | _ \<Rightarrow> (None, fs)),
     unzip_reply = (\<lambda>n archive fs.
        ([\<lparr>entry_path = ''inputs/'', entry_type = ''Directory'', entry_content = []\<rparr>,
          \<lparr>entry_path = ''inputs/parametresSigmoide'', entry_type = ''File'', entry_content = ''k=2''\<rparr>], None)),
     spawn_reply = example_spawn_reply,
     document_reply = (\<lambda>n ev. Inr (Str ''doc-1'')),
     put_reply = (\<lambda>n ev. None),
     kill_reply = (\<lambda>n ev. None) \<rparr>"

text \<open>A repository that grants no claim: every answer carries the status PENDING.\<close>

definition refusing_env :: env where
  "refusing_env = example_env\<lparr>task_reply := (\<lambda>n ev. Inr (empty_obj\<lparr>o_status := Str ''PENDING''\<rparr>))\<rparr>"

text \<open>The same process while the study runs its simulation step for \<open>sim-1\<close>.\<close>

definition running_study :: study where
  "running_study = example_study\<lparr>step := Some STUDY_STEP_SIMULATION,
     sim := Some (empty_obj\<lparr>o_nodeRef := Str ''workspace://SpacesStore/sim-1'',
                             o_status := Str BG_TASK_STATUS_RUNNING\<rparr>),
     child := Some (Child (Some 4245))\<rparr>"

definition running_world :: world where
  "running_world = example_world\<lparr>studies := [nodeRef example_study \<mapsto> running_study]\<rparr>"

text \<open>A process in which the workspace of the study is left over from an earlier stage.\<close>

definition stale_world :: world where
  "stale_world = example_world\<lparr>files :=
     [''/srv/studies/e72baac6'' \<mapsto> FsDir,
      ''/srv/studies/e72baac6/old.log'' \<mapsto> FsFile ''old'']\<rparr>"



text \<open>A repository that rejects the progress report \<open>compressing\<close>.\<close>

definition failing_report_env :: env where
  "failing_report_env = example_env\<lparr>task_reply := (\<lambda>n ev.
     case ev of
       TaskUpdate stage ref status label out err \<Rightarrow>
         if label = Str ''compressing'' \<and> status = Str BG_TASK_STATUS_RUNNING
         then Inl ''Unexected error (code: 500)''
         else example_task_reply n ev
     | _ \<Rightarrow> example_task_reply n ev)\<rparr>"

text \<open>A workspace in which \<open>frequencesVent\<close> is a directory.\<close>

definition misplaced_world :: world where
  "misplaced_world = example_world\<lparr>files :=
     [''/srv/studies/e72baac6'' \<mapsto> FsDir,
      ''/srv/studies/e72baac6/frequencesVent'' \<mapsto> FsDir]\<rparr>"

text \<open>A file of 16 MiB and a file of one byte, ready for upload.\<close>

definition upload_world :: world where
  "upload_world = example_world\<lparr>files :=
     [''/srv/studies/e72baac6-simulation.7z'' \<mapsto> FsFile (replicate 16777216 CHR ''z''),
      ''/srv/studies/small.7z'' \<mapsto> FsFile ''z'']\<rparr>"

section \<open>Properties\<close>

subsection \<open>Unfolding the upload loop\<close>

lemma uploadChunk_last:
  "numChunks \<le> counter \<Longrightarrow>
   uploadChunk env uploadId fileSize numChunks counter pos w =
     (case put_reply env (length (trace w)) (PutChunk uploadId (min CHUNK_SIZE (fileSize - pos)) True) of
        Some msg \<Rightarrow> (Rejected (Error msg), emit (PutChunk uploadId (min CHUNK_SIZE (fileSize - pos)) True) w)
      | None \<Rightarrow> (Resolved (), emit (PutChunk uploadId (min CHUNK_SIZE (fileSize - pos)) True) w))"
  by (subst uploadChunk.simps) (simp add: Let_def split: option.splits)

lemma uploadChunk_more:
  "counter < numChunks \<Longrightarrow>
   uploadChunk env uploadId fileSize numChunks counter pos w =
     (case put_reply env (length (trace w)) (PutChunk uploadId (min CHUNK_SIZE (fileSize - pos)) False) of
        Some msg \<Rightarrow> (Rejected (Error msg), emit (PutChunk uploadId (min CHUNK_SIZE (fileSize - pos)) False) w)
      | None \<Rightarrow> uploadChunk env uploadId fileSize numChunks (counter + 1)
                  (pos + min CHUNK_SIZE (fileSize - pos))
                  (emit (PutChunk uploadId (min CHUNK_SIZE (fileSize - pos)) False) w))"
  by (subst uploadChunk.simps) (simp add: Let_def split: option.splits)

subsection \<open>The final task update and the claim\<close>

text \<open>
  Claim C1. Every pipeline is to issue its final task update if and only if its
  claim was acquired (answered RUNNING). The meshing pipeline stores the answer of
  the claim in \<open>self.meshing\<close> before it looks at the status, and its failure
  handler stores a fresh record there for any \<open>Error\<close>; so its finaliser finds
  \<open>self.meshing\<close> set and sends a final update also when the claim was refused.
  With a repository that answers PENDING, the meshing run sends the claim and then a
  task update with status FAILED; the simulation and post-processing runs send the
  claim and nothing else.
\<close>

theorem startMeshing_updates_after_refused_claim:
  "trace (snd (startMeshing refusing_env example_world)) =
     [ClaimTask ''meshing'' (Str ''workspace://SpacesStore/e72baac6''),
      Unregister ''workspace://SpacesStore/e72baac6'',
      TaskUpdate ''meshing'' (Str ''workspace://SpacesStore/e72baac6'') (Str ''FAILED'')
        Undefined Undefined (Str ''Invalid meshing status: PENDING'')]
   \<and> trace (snd (startSimulation refusing_env (Str ''workspace://SpacesStore/sim-1'') example_world)) =
     [ClaimTask ''simulation'' (Str ''workspace://SpacesStore/sim-1''),
      Unregister ''workspace://SpacesStore/e72baac6'']
   \<and> trace (snd (postproc refusing_env example_world)) =
     [ClaimTask ''postproc'' (Str ''workspace://SpacesStore/e72baac6''),
      Unregister ''workspace://SpacesStore/e72baac6'']"
proof -
  have m: "trace (snd (startMeshing refusing_env example_world)) =
     [ClaimTask ''meshing'' (Str ''workspace://SpacesStore/e72baac6''),
      Unregister ''workspace://SpacesStore/e72baac6'',
      TaskUpdate ''meshing'' (Str ''workspace://SpacesStore/e72baac6'') (Str ''FAILED'')
        Undefined Undefined (Str ''Invalid meshing status: PENDING'')]"
    by (simp add: startMeshing_def StudyCache_exists_def finally_p_def catch_p_def
        startMeshing_steps_def startMeshing_prepare_def then_p_def claimMeshingTask_def
        arendel_call_def resolve_def refusing_env_def example_env_def example_world_def
        example_study_def emit_def task_of_def empty_obj_def startMeshing_claimed_def
        modify_self_def startMeshing_catch_def startMeshing_finally_def
        StudyCache_unregister_def updateMeshingTask_def meshingTaskUpdate_def Logger_error_def)
  have s: "trace (snd (startSimulation refusing_env (Str ''workspace://SpacesStore/sim-1'') example_world)) =
     [ClaimTask ''simulation'' (Str ''workspace://SpacesStore/sim-1''),
      Unregister ''workspace://SpacesStore/e72baac6'']"
    by (simp add: startSimulation_def StudyCache_exists_def finally_p_def catch_p_def
        startSimulation_steps_def startSimulation_until_exit_def startSimulation_prepare_def then_p_def claimSimulationTask_def
        arendel_call_def resolve_def refusing_env_def example_env_def example_world_def
        example_study_def emit_def task_of_def empty_obj_def startSimulation_claimed_def
        modify_self_def startSimulation_catch_def startSimulation_finally_def
        StudyCache_unregister_def startSimulation_init_def modify_result_def js_append_def)
  have p: "trace (snd (postproc refusing_env example_world)) =
     [ClaimTask ''postproc'' (Str ''workspace://SpacesStore/e72baac6''),
      Unregister ''workspace://SpacesStore/e72baac6'']"
    by (simp add: postproc_def StudyCache_exists_def finally_p_def catch_p_def
        postproc_steps_def postproc_until_probes_def postproc_prepare_def then_p_def
        claimPostprocTask_def arendel_call_def resolve_def refusing_env_def example_env_def
        example_world_def example_study_def emit_def task_of_def empty_obj_def
        postproc_claimed_def modify_self_def postproc_catch_def postproc_finally_def
        StudyCache_unregister_def postproc_init_def modify_result_def setup_study_def
        mkdirSync_def)
  from m s p show ?thesis by blast
qed

subsection \<open>The double-start guard\<close>

text \<open>
  Claim C3. When the reference of the study is already in the active-study registry,
  \<open>startMeshing\<close>, \<open>startSimulation\<close> and \<open>postproc\<close> reject with the error
  \<open>Study already under processing\<close> and leave the state as it was: the trace has
  no new call, so the claim endpoint of the repository was not invoked.
\<close>

theorem start_rejects_registered_study:
  "studies w (nodeRef (self w)) = Some s \<Longrightarrow>
   startMeshing env w = (Rejected (Error ''Study already under processing''), w)
   \<and> startSimulation env simNodeRef w = (Rejected (Error ''Study already under processing''), w)
   \<and> postproc env w = (Returns (Rejected (Error ''Study already under processing'')), w)"
  by (simp add: startMeshing_def startSimulation_def postproc_def StudyCache_exists_def)

theorem start_rejects_registered_study_witness:
  "studies running_world (nodeRef (self running_world)) = Some running_study
   \<and> startMeshing example_env running_world
       = (Rejected (Error ''Study already under processing''), running_world)
   \<and> startSimulation example_env (Str ''workspace://SpacesStore/sim-2'') running_world
       = (Rejected (Error ''Study already under processing''), running_world)
   \<and> postproc example_env running_world
       = (Returns (Rejected (Error ''Study already under processing'')), running_world)"
proof -
  have h: "studies running_world (nodeRef (self running_world)) = Some running_study"
    by (simp add: running_world_def example_world_def)
  show ?thesis
    using h start_rejects_registered_study [OF h, of example_env "Str ''workspace://SpacesStore/sim-2''"]
    by simp
qed

subsection \<open>A refused claim\<close>

text \<open>
  Claim C4. When the claim call of a run is answered with a status other than
  RUNNING, the run spawns no external program (neither \<open>rm\<close>, nor \<open>7z\<close>, nor the
  program of the stage) and never puts the study into the active-study registry:
  none of the calls the run adds to the trace is a spawn or a registration. This
  holds for meshing, simulation and post-processing.
\<close>

theorem refused_claim_spawns_nothing:
  "(task_reply env (length (trace w)) (ClaimTask ''meshing'' (Str (nodeRef (self w)))) = Inr m1
      \<and> o_status m1 \<noteq> Str ''RUNNING''
    \<longrightarrow> list_all (\<lambda>e. \<not> is_spawn e \<and> \<not> is_register e) (new_events w (snd (startMeshing env w))))
   \<and> (task_reply env (length (trace w)) (ClaimTask ''simulation'' simNodeRef) = Inr m2
      \<and> o_status m2 \<noteq> Str ''RUNNING''
    \<longrightarrow> list_all (\<lambda>e. \<not> is_spawn e \<and> \<not> is_register e) (new_events w (snd (startSimulation env simNodeRef w))))
   \<and> (task_reply env (length (trace w)) (ClaimTask ''postproc'' (Str (nodeRef (self w)))) = Inr m3
      \<and> o_status m3 \<noteq> Str ''RUNNING''
    \<longrightarrow> list_all (\<lambda>e. \<not> is_spawn e \<and> \<not> is_register e) (new_events w (snd (postproc env w))))"
proof (intro conjI impI)
  assume "task_reply env (length (trace w)) (ClaimTask ''meshing'' (Str (nodeRef (self w)))) = Inr m1
      \<and> o_status m1 \<noteq> Str ''RUNNING''"
  then show "list_all (\<lambda>e. \<not> is_spawn e \<and> \<not> is_register e) (new_events w (snd (startMeshing env w)))"
    by (simp add: startMeshing_def StudyCache_exists_def finally_p_def catch_p_def
        startMeshing_steps_def startMeshing_prepare_def then_p_def claimMeshingTask_def
        arendel_call_def resolve_def emit_def task_of_def startMeshing_claimed_def modify_self_def
        startMeshing_catch_def startMeshing_finally_def StudyCache_unregister_def
        updateMeshingTask_def meshingTaskUpdate_def Logger_error_def new_events_def Let_def
        split: sum.splits option.splits)
next
  assume "task_reply env (length (trace w)) (ClaimTask ''simulation'' simNodeRef) = Inr m2
      \<and> o_status m2 \<noteq> Str ''RUNNING''"
  then show "list_all (\<lambda>e. \<not> is_spawn e \<and> \<not> is_register e) (new_events w (snd (startSimulation env simNodeRef w)))"
    by (simp add: startSimulation_def StudyCache_exists_def finally_p_def catch_p_def
        startSimulation_steps_def startSimulation_until_exit_def startSimulation_prepare_def then_p_def claimSimulationTask_def
        arendel_call_def resolve_def emit_def task_of_def startSimulation_claimed_def
        modify_self_def startSimulation_catch_def startSimulation_finally_def
        StudyCache_unregister_def updateSimulationTask_def simulationTaskUpdate_def
        Logger_error_def new_events_def startSimulation_init_def modify_result_def Let_def
        split: sum.splits option.splits)
next
  assume "task_reply env (length (trace w)) (ClaimTask ''postproc'' (Str (nodeRef (self w)))) = Inr m3
      \<and> o_status m3 \<noteq> Str ''RUNNING''"
  then show "list_all (\<lambda>e. \<not> is_spawn e \<and> \<not> is_register e) (new_events w (snd (postproc env w)))"
    by (simp add: postproc_def StudyCache_exists_def finally_p_def catch_p_def postproc_steps_def
        postproc_until_probes_def postproc_prepare_def then_p_def claimPostprocTask_def
        arendel_call_def resolve_def emit_def task_of_def postproc_claimed_def modify_self_def
        postproc_catch_def postproc_finally_def StudyCache_unregister_def updatePostprocTask_def
        postprocTaskUpdate_def Logger_error_def new_events_def postproc_init_def
        modify_result_def setup_study_def Let_def
        split: sum.splits option.splits)
qed

theorem refused_claim_spawns_nothing_witness:
  "task_reply refusing_env (length (trace example_world))
       (ClaimTask ''meshing'' (Str (nodeRef (self example_world))))
     = Inr (empty_obj\<lparr>o_status := Str ''PENDING''\<rparr>)
   \<and> o_status (empty_obj\<lparr>o_status := Str ''PENDING''\<rparr>) \<noteq> Str ''RUNNING''
   \<and> list_all (\<lambda>e. \<not> is_spawn e \<and> \<not> is_register e)
       (new_events example_world (snd (startMeshing refusing_env example_world)))
   \<and> list_all (\<lambda>e. \<not> is_spawn e \<and> \<not> is_register e)
       (new_events example_world
          (snd (startSimulation refusing_env (Str ''workspace://SpacesStore/sim-1'') example_world)))
   \<and> list_all (\<lambda>e. \<not> is_spawn e \<and> \<not> is_register e)
       (new_events example_world (snd (postproc refusing_env example_world)))"
  using refused_claim_spawns_nothing [of refusing_env example_world
      "empty_obj\<lparr>o_status := Str ''PENDING''\<rparr>" "Str ''workspace://SpacesStore/sim-1''"
      "empty_obj\<lparr>o_status := Str ''PENDING''\<rparr>" "empty_obj\<lparr>o_status := Str ''PENDING''\<rparr>"]
  by (simp add: refusing_env_def)

subsection \<open>Chunked upload\<close>

text \<open>
  Claim C5. An upload of N bytes is to send max(1, ceil(N / 8388608)) chunks, the last
  of them flagged \<open>isLastChunk\<close>. The loop computes that number as \<open>numChunks\<close>,
  but it flags a chunk as the last when the counter of chunks already sent has
  reached \<open>numChunks\<close>, so every non-empty file gets one more request: an empty
  chunk that carries the flag. A file of 16777216 bytes is sent in three requests
  of 8388608, 8388608 and 0 bytes, a file of one byte in two requests of 1 and 0
  bytes, and only the empty one is flagged.
\<close>

theorem upload_sends_one_more_chunk:
  "trace (snd (upload example_env ''e72baac6'' ''results.7z''
       (Str ''/srv/studies/e72baac6-simulation.7z'') Undefined Undefined upload_world)) =
     [CreateDocument ''e72baac6'' ''results.7z'' Undefined Undefined,
      PutChunk (Str ''doc-1'') 8388608 False,
      PutChunk (Str ''doc-1'') 8388608 False,
      PutChunk (Str ''doc-1'') 0 True]
   \<and> trace (snd (upload example_env ''e72baac6'' ''results.7z''
       (Str ''/srv/studies/small.7z'') Undefined Undefined upload_world)) =
     [CreateDocument ''e72baac6'' ''results.7z'' Undefined Undefined,
      PutChunk (Str ''doc-1'') 1 False,
      PutChunk (Str ''doc-1'') 0 True]"
  by (simp add: upload_def example_env_def upload_world_def example_world_def numChunks_of_def
      CHUNK_SIZE_def emit_def uploadChunk_last uploadChunk_more)

subsection \<open>Abort\<close>

text \<open>
  Claim C7. An abort for a study with no active execution is to send one task update
  with status FAILED and stderr \<open>user aborted\<close>. \<open>abortSimulation\<close> and
  \<open>abortPostproc\<close> do; \<open>abortMeshing\<close> calls \<open>meshingTaskUpdate\<close> with the
  reference and the status only, so its update carries no stage, no stdout and no
  stderr. None of the three signals a process.
\<close>

theorem abortMeshing_omits_user_aborted:
  "trace (snd (abortMeshing example_env example_world)) =
     [TaskUpdate ''meshing'' (Str ''workspace://SpacesStore/e72baac6'') (Str ''FAILED'')
        Undefined Undefined Undefined]
   \<and> trace (snd (abortSimulation example_env (Str ''workspace://SpacesStore/sim-1'') example_world)) =
     [TaskUpdate ''simulation'' (Str ''workspace://SpacesStore/sim-1'') (Str ''FAILED'')
        Null (Str []) (Str ''user aborted'')]
   \<and> trace (snd (abortPostproc example_env example_world)) =
     [TaskUpdate ''postproc'' (Str ''workspace://SpacesStore/e72baac6'') (Str ''FAILED'')
        Null (Str []) (Str ''user aborted'')]"
  by (simp add: abortMeshing_def abortSimulation_def abortPostproc_def StudyCache_get_def
      returns_task_def meshingTaskUpdate_def simulationTaskUpdate_def postprocTaskUpdate_def
      then_p_def arendel_call_def resolve_def example_env_def example_task_reply_def
      example_world_def example_study_def emit_def)

text \<open>
  Claim C10. \<open>abortSimulation\<close> for a study that is running its simulation step
  under another simulation reference than the one given sends one task update for
  the given reference, with status FAILED and stderr \<open>user aborted\<close>, and does
  nothing else: no signal is sent, and the registry, the running study and the file
  system stay as they were.
\<close>

theorem abortSimulation_other_reference:
  "studies w (nodeRef (self w)) = Some s \<Longrightarrow> step s = Some ''simulation'' \<Longrightarrow>
   sim s = Some sm \<Longrightarrow> o_nodeRef sm \<noteq> simNodeRef \<Longrightarrow>
   snd (abortSimulation env simNodeRef w) =
     w\<lparr>trace := trace w @ [TaskUpdate ''simulation'' simNodeRef (Str ''FAILED'') Null (Str [])
                             (Str ''user aborted'')]\<rparr>"
  by (simp add: abortSimulation_def StudyCache_get_def returns_task_def simulationTaskUpdate_def
      then_p_def arendel_call_def resolve_def emit_def split: sum.splits)

theorem abortSimulation_other_reference_witness:
  "studies running_world (nodeRef (self running_world)) = Some running_study
   \<and> step running_study = Some ''simulation''
   \<and> sim running_study = Some (empty_obj\<lparr>o_nodeRef := Str ''workspace://SpacesStore/sim-1'',
                                           o_status := Str ''RUNNING''\<rparr>)
   \<and> Str ''workspace://SpacesStore/sim-1'' \<noteq> Str ''workspace://SpacesStore/sim-2''
   \<and> snd (abortSimulation example_env (Str ''workspace://SpacesStore/sim-2'') running_world) =
       running_world\<lparr>trace := trace running_world @
         [TaskUpdate ''simulation'' (Str ''workspace://SpacesStore/sim-2'') (Str ''FAILED'') Null (Str [])
            (Str ''user aborted'')]\<rparr>"
  using abortSimulation_other_reference [of running_world running_study
      "empty_obj\<lparr>o_nodeRef := Str ''workspace://SpacesStore/sim-1'', o_status := Str ''RUNNING''\<rparr>"
      "Str ''workspace://SpacesStore/sim-2''" example_env]
  by (simp add: running_world_def running_study_def example_world_def example_study_def)

subsection \<open>Archive extraction\<close>











subsection \<open>The workspace at the start of a stage\<close>

lemma then_p_resolvedD:
  "then_p p f w = (Resolved y, w') \<Longrightarrow> \<exists>x w1. p w = (Resolved x, w1) \<and> f x w1 = (Resolved y, w')"
  by (auto simp: then_p_def split: prod.splits outcome.splits)

lemma then_p_unitD:
  fixes p :: "unit promise"
  shows "then_p p f w = (Resolved y, w') \<Longrightarrow> \<exists>w1. p w = (Resolved (), w1) \<and> f () w1 = (Resolved y, w')"
  by (auto simp: then_p_def split: prod.splits outcome.splits)

lemma make_dirs_apply:
  "make_dirs ds fs q = (if q \<in> set ds \<and> fs q = None then Some FsDir else fs q)"
  by (induction ds arbitrary: fs) auto

lemma dir_prefixes_length:
  "d \<in> set (dir_prefixes pre cs) \<Longrightarrow> length d \<le> length pre + length cs"
  by (induction cs arbitrary: pre) (fastforce split: if_splits)+

lemma dir_prefixes_self: "pre @ cs \<in> set (dir_prefixes pre cs)"
proof (induction cs arbitrary: pre)
  case Nil
  show ?case by simp
next
  case (Cons c cs)
  from Cons [of "pre @ [c]"] have "pre @ c # cs \<in> set (dir_prefixes (pre @ [c]) cs)" by simp
  then show ?case by auto
qed

lemma below_longer: "below p q \<Longrightarrow> length p < length q"
  by (auto simp: below_def prefix_def)

lemma dir_empty_rm_rf: "dir_empty (rm_rf p fs) p"
  by (simp add: dir_empty_def rm_rf_def below_def)

lemma plain_interpolate: "plain_path p \<Longrightarrow> interpolatePath sd st p = p"
  by (simp add: plain_path_def interpolatePath_def js_replace_def)

lemma setup_creates:
  assumes "setup_study w = Inr w'" and "files w (path (self w)) = None"
    and "dir_empty (files w) (path (self w))"
  shows "files w' (path (self w)) = Some FsDir \<and> dir_empty (files w') (path (self w))
         \<and> self w' = self w"
proof -
  let ?p = "path (self w)"
  from assms(1,2) have w': "w' = w\<lparr>files := make_dirs (dir_prefixes [] ?p) (files w)\<rparr>"
    by (auto simp: setup_study_def mkdirSync_def split: if_splits)
  have "?p \<in> set (dir_prefixes [] ?p)" using dir_prefixes_self [of "[]" ?p] by simp
  then have a: "files w' ?p = Some FsDir" using assms(2) by (simp add: w' make_dirs_apply)
  have b: "dir_empty (files w') ?p"
    unfolding dir_empty_def
  proof (intro allI impI)
    fix q assume q: "below ?p q"
    then have "length ?p < length q" by (rule below_longer)
    then have "q \<notin> set (dir_prefixes [] ?p)" using dir_prefixes_length [of q "[]" ?p] by auto
    moreover from q assms(3) have "files w q = None" by (simp add: dir_empty_def)
    ultimately show "files w' q = None" by (simp add: w' make_dirs_apply)
  qed
  from a b show ?thesis by (simp add: w')
qed

text \<open>A \<open>cleanup\<close> that succeeds leaves no workspace, whatever was there.\<close>

lemma cleanup_resolved:
  assumes rm: "rm_removes env" and pl: "plain_path (path (self w))" and ne: "path (self w) \<noteq> []"
    and res: "cleanup env w = (Resolved (), w')"
  shows "files w' (path (self w)) = None
       \<and> (files w (path (self w)) \<noteq> None \<longrightarrow> files w' = rm_rf (path (self w)) (files w))
       \<and> (files w (path (self w)) = None \<longrightarrow> files w' = files w)
       \<and> path (self w') = path (self w)"
proof (cases "files w (path (self w)) = None")
  case True
  with res ne show ?thesis by (simp add: cleanup_def)
next
  case False
  let ?p = "path (self w)"
  obtain script0 sd where rp: "resolve_program env ''rm'' (files w) = Inr (script0, sd)"
    using res False ne
    by (cases "resolve_program env ''rm'' (files w)")
       (auto simp: cleanup_def then_p_def execute_def)
  let ?args0 = "if ends_with script0 ''.py'' then [Str script0] else []"
  let ?script = "if ends_with script0 ''.py'' then airetd_python env else script0"
  have ba: "build_args sd ?p [arg (Str ''-rf'') Undefined Undefined, arg Undefined (Str ?p) Undefined]
              ?args0 (files w) = (Inr (?args0 @ [Str ''-rf'', Str ?p]), files w)"
    using pl by (simp add: arg_def interpolate_val_def check_descriptor_def plain_interpolate)
  let ?cwd = "interpolatePath sd ?p (if path_resolve (processCwd env) [studiesDir env] = [] then ?p
                 else path_resolve (processCwd env) [studiesDir env])"
  obtain e pid fs' where sp: "spawn_reply env (length (trace w))
        (Spawn ?script (?args0 @ [Str ''-rf'', Str ?p]) ?cwd) (files w) = (e, pid, fs')"
    by (metis prod_cases3)
  obtain r where r: "settle_child e = Resolved r"
    using res False ne rp ba sp
    by (cases "settle_child e") (auto simp: cleanup_def then_p_def execute_def Let_def)
  from rm sp r have fs': "fs' = rm_rf ?p (files w)"
    unfolding rm_removes_def by blast
  from res False ne rp ba sp r have w': "files w' = fs' \<and> path (self w') = ?p"
    by (auto simp: cleanup_def then_p_def execute_def Let_def resolve_def modify_self_def emit_def
        log_spawn_error_def Logger_error_def split: proc_end.splits)
  from w' fs' have "files w' (path (self w)) = None" by (simp add: rm_rf_def)
  with False w' fs' show ?thesis by auto
qed

lemma rm_removes_example: "rm_removes example_env"
  by (auto simp: rm_removes_def example_env_def example_spawn_reply_def rm_target_def)

text \<open>
  Claim C6, as stated: at the start of the population step of every stage the
  workspace exists and is empty, because it was removed and then recreated. The
  simulation pipeline removes the workspace and has no step that recreates it: in
  a process where the workspace is left over from an earlier stage, the simulation
  run reaches its \<open>uncompress\<close> step with no workspace directory.
\<close>

theorem simulation_starts_without_workspace:
  "files stale_world ''/srv/studies/e72baac6'' = Some FsDir
   \<and> fst (startSimulation_prepare example_env (Str ''workspace://SpacesStore/sim-1'') stale_world)
       = Resolved ()
   \<and> files (snd (startSimulation_prepare example_env (Str ''workspace://SpacesStore/sim-1'') stale_world))
       ''/srv/studies/e72baac6'' = None"
  by (simp add: startSimulation_prepare_def then_p_def claimSimulationTask_def arendel_call_def
      resolve_def example_env_def example_task_reply_def example_spawn_reply_def rm_target_def
      stale_world_def example_world_def example_study_def emit_def task_of_def empty_obj_def
      startSimulation_claimed_def modify_self_def StudyCache_register_def cleanup_def execute_def
      resolve_program_def path_resolve_def abs_join_def ends_with_def arg_def interpolate_val_def
      check_descriptor_def interpolatePath_def js_replace_def settle_child_def code_truthy_def
      signal_truthy_def log_spawn_error_def rm_rf_def Let_def)

text \<open>
  Claim C6, amended. Let \<open>rm -rf\<close> remove what it is asked to, let the workspace
  path hold no placeholder, and let nothing lie below a workspace that does not
  exist. Then, in a run whose claim was acquired and whose cleanup succeeded:
  the meshing pipeline has removed and recreated the workspace, which exists as an
  empty directory when the download and extraction begin; the simulation and the
  post-processing pipelines have removed the workspace and not recreated it, so
  that no workspace exists when their \<open>uncompress\<close> step begins (the archiver
  recreates it from the archive of the previous stage).
\<close>

theorem workspace_at_start_of_stage:
  assumes rm: "rm_removes env" and pl: "plain_path (path (self w))" and ne: "path (self w) \<noteq> []"
    and orphan: "files w (path (self w)) = None \<longrightarrow> dir_empty (files w) (path (self w))"
  shows "(fst (startMeshing_prepare env w) = Resolved () \<longrightarrow>
            files (snd (startMeshing_prepare env w)) (path (self w)) = Some FsDir
            \<and> dir_empty (files (snd (startMeshing_prepare env w))) (path (self w)))
       \<and> (fst (startSimulation_prepare env simNodeRef w) = Resolved () \<longrightarrow>
            files (snd (startSimulation_prepare env simNodeRef w)) (path (self w)) = None
            \<and> dir_empty (files (snd (startSimulation_prepare env simNodeRef w))) (path (self w)))
       \<and> (fst (postproc_prepare env w) = Resolved () \<longrightarrow>
            files (snd (postproc_prepare env w)) (path (self w)) = None
            \<and> dir_empty (files (snd (postproc_prepare env w))) (path (self w)))"
proof -
  let ?p = "path (self w)"
  have after_cleanup: "files w2 ?p = None \<and> dir_empty (files w2) ?p \<and> path (self w2) = ?p"
    if c: "cleanup env w1 = (Resolved (), w2)" and f: "files w1 = files w" and p: "path (self w1) = ?p"
    for w1 w2
  proof -
    from pl ne p have "plain_path (path (self w1))" "path (self w1) \<noteq> []" by simp_all
    from cleanup_resolved [OF rm this c] f p
    have *: "files w2 ?p = None" "files w ?p \<noteq> None \<longrightarrow> files w2 = rm_rf ?p (files w)"
      "files w ?p = None \<longrightarrow> files w2 = files w" "path (self w2) = ?p"
      by simp_all
    have "dir_empty (files w2) ?p"
    proof (cases "files w ?p = None")
      case True
      with * orphan show ?thesis by simp
    next
      case False
      with * show ?thesis by (simp add: dir_empty_rm_rf)
    qed
    with * show ?thesis by simp
  qed
  have m: "files (snd (startMeshing_prepare env w)) ?p = Some FsDir
            \<and> dir_empty (files (snd (startMeshing_prepare env w))) ?p"
    if r: "fst (startMeshing_prepare env w) = Resolved ()"
  proof -
    obtain w' where w': "startMeshing_prepare env w = (Resolved (), w')"
      using r by (cases "startMeshing_prepare env w") auto
    from then_p_resolvedD [OF w' [unfolded startMeshing_prepare_def]]
    obtain m w1 where c1: "claimMeshingTask env (nodeRef (self w)) w = (Resolved m, w1)"
      and r1: "then_p (startMeshing_claimed m) (\<lambda>u. then_p (cleanup env) (\<lambda>u. try_sync setup_study)) w1
                 = (Resolved (), w')" by blast
    from then_p_unitD [OF r1]
    obtain w2 where c2: "startMeshing_claimed m w1 = (Resolved (), w2)"
      and r2: "then_p (cleanup env) (\<lambda>u. try_sync setup_study) w2 = (Resolved (), w')" by blast
    from then_p_unitD [OF r2]
    obtain w3 where c3: "cleanup env w2 = (Resolved (), w3)"
      and c4: "try_sync setup_study w3 = (Resolved (), w')" by blast
    from c1 have f1: "files w1 = files w \<and> path (self w1) = ?p"
      by (auto simp: claimMeshingTask_def then_p_def arendel_call_def resolve_def emit_def split: sum.splits)
    from c2 f1 have f2: "files w2 = files w" "path (self w2) = ?p"
      by (auto simp: startMeshing_claimed_def Let_def modify_self_def StudyCache_register_def emit_def
          split: if_splits)
    from after_cleanup [OF c3 f2] have f3: "files w3 ?p = None" "dir_empty (files w3) ?p" "path (self w3) = ?p"
      by simp_all
    from c4 have s: "setup_study w3 = Inr w'" by (auto simp: try_sync_def split: sum.splits)
    from setup_creates [OF s] f3 have "files w' ?p = Some FsDir \<and> dir_empty (files w') ?p" by simp
    with w' show ?thesis by simp
  qed
  have s: "files (snd (startSimulation_prepare env simNodeRef w)) ?p = None
            \<and> dir_empty (files (snd (startSimulation_prepare env simNodeRef w))) ?p"
    if r: "fst (startSimulation_prepare env simNodeRef w) = Resolved ()"
  proof -
    obtain w' where w': "startSimulation_prepare env simNodeRef w = (Resolved (), w')"
      using r by (cases "startSimulation_prepare env simNodeRef w") auto
    from then_p_resolvedD [OF w' [unfolded startSimulation_prepare_def]]
    obtain m w1 where c1: "claimSimulationTask env simNodeRef w = (Resolved m, w1)"
      and r1: "then_p (startSimulation_claimed m) (\<lambda>u. cleanup env) w1 = (Resolved (), w')" by blast
    from then_p_unitD [OF r1]
    obtain w2 where c2: "startSimulation_claimed m w1 = (Resolved (), w2)"
      and c3: "cleanup env w2 = (Resolved (), w')" by blast
    from c1 have f1: "files w1 = files w \<and> path (self w1) = ?p"
      by (auto simp: claimSimulationTask_def then_p_def arendel_call_def resolve_def emit_def split: sum.splits)
    from c2 f1 have f2: "files w2 = files w" "path (self w2) = ?p"
      by (auto simp: startSimulation_claimed_def Let_def modify_self_def StudyCache_register_def emit_def
          split: if_splits)
    from after_cleanup [OF c3 f2] w' show ?thesis by simp
  qed
  have p: "files (snd (postproc_prepare env w)) ?p = None
            \<and> dir_empty (files (snd (postproc_prepare env w))) ?p"
    if r: "fst (postproc_prepare env w) = Resolved ()"
  proof -
    obtain w' where w': "postproc_prepare env w = (Resolved (), w')"
      using r by (cases "postproc_prepare env w") auto
    from then_p_resolvedD [OF w' [unfolded postproc_prepare_def]]
    obtain m w1 where c1: "claimPostprocTask env (nodeRef (self w)) w = (Resolved m, w1)"
      and r1: "then_p (postproc_claimed m) (\<lambda>u. cleanup env) w1 = (Resolved (), w')" by blast
    from then_p_unitD [OF r1]
    obtain w2 where c2: "postproc_claimed m w1 = (Resolved (), w2)"
      and c3: "cleanup env w2 = (Resolved (), w')" by blast
    from c1 have f1: "files w1 = files w \<and> path (self w1) = ?p"
      by (auto simp: claimPostprocTask_def then_p_def arendel_call_def resolve_def emit_def split: sum.splits)
    from c2 f1 have f2: "files w2 = files w" "path (self w2) = ?p"
      by (auto simp: postproc_claimed_def Let_def modify_self_def StudyCache_register_def emit_def
          modify_result_def split: if_splits option.splits)
    from after_cleanup [OF c3 f2] w' show ?thesis by simp
  qed
  from m s p show ?thesis by blast
qed

theorem workspace_at_start_of_stage_witness:
  "rm_removes example_env
   \<and> plain_path (path (self (postproc_init stale_world)))
   \<and> path (self (postproc_init stale_world)) \<noteq> []
   \<and> files (postproc_init stale_world) (path (self (postproc_init stale_world))) = Some FsDir
   \<and> fst (startMeshing_prepare example_env (postproc_init stale_world)) = Resolved ()
   \<and> files (snd (startMeshing_prepare example_env (postproc_init stale_world))) ''/srv/studies/e72baac6'' = Some FsDir
   \<and> dir_empty (files (snd (startMeshing_prepare example_env (postproc_init stale_world)))) ''/srv/studies/e72baac6''
   \<and> fst (startSimulation_prepare example_env (Str ''workspace://SpacesStore/sim-1'') (postproc_init stale_world)) = Resolved ()
   \<and> files (snd (startSimulation_prepare example_env (Str ''workspace://SpacesStore/sim-1'') (postproc_init stale_world))) ''/srv/studies/e72baac6'' = None
   \<and> fst (postproc_prepare example_env (postproc_init stale_world)) = Resolved ()
   \<and> files (snd (postproc_prepare example_env (postproc_init stale_world))) ''/srv/studies/e72baac6'' = None"
proof -
  have p: "path (self (postproc_init stale_world)) = ''/srv/studies/e72baac6''"
    by (simp add: postproc_init_def modify_self_def stale_world_def example_world_def example_study_def)
  have h2: "plain_path (path (self (postproc_init stale_world)))"
    by (simp add: p plain_path_def)
  have h3: "path (self (postproc_init stale_world)) \<noteq> []" by (simp add: p)
  have h4: "files (postproc_init stale_world) (path (self (postproc_init stale_world))) = Some FsDir"
    by (simp add: p) (simp add: postproc_init_def modify_self_def stale_world_def example_world_def)
  then have h4': "files (postproc_init stale_world) (path (self (postproc_init stale_world))) = None
     \<longrightarrow> dir_empty (files (postproc_init stale_world)) (path (self (postproc_init stale_world)))"
    by simp
  have m: "fst (startMeshing_prepare example_env (postproc_init stale_world)) = Resolved ()"
    by (simp add: startMeshing_prepare_def then_p_def claimMeshingTask_def arendel_call_def
      resolve_def example_env_def example_task_reply_def example_spawn_reply_def rm_target_def
      postproc_init_def stale_world_def example_world_def example_study_def emit_def task_of_def empty_obj_def
      startMeshing_claimed_def modify_self_def StudyCache_register_def cleanup_def execute_def
      resolve_program_def path_resolve_def abs_join_def ends_with_def arg_def interpolate_val_def
      check_descriptor_def interpolatePath_def js_replace_def settle_child_def code_truthy_def
      signal_truthy_def log_spawn_error_def rm_rf_def Let_def try_sync_def setup_study_def mkdirSync_def)
  have s: "fst (startSimulation_prepare example_env (Str ''workspace://SpacesStore/sim-1'') (postproc_init stale_world)) = Resolved ()"
    by (simp add: startSimulation_prepare_def then_p_def claimSimulationTask_def arendel_call_def
      resolve_def example_env_def example_task_reply_def example_spawn_reply_def rm_target_def
      postproc_init_def stale_world_def example_world_def example_study_def emit_def task_of_def empty_obj_def
      startSimulation_claimed_def modify_self_def StudyCache_register_def cleanup_def execute_def
      resolve_program_def path_resolve_def abs_join_def ends_with_def arg_def interpolate_val_def
      check_descriptor_def interpolatePath_def js_replace_def settle_child_def code_truthy_def
      signal_truthy_def log_spawn_error_def rm_rf_def Let_def)
  have pp: "fst (postproc_prepare example_env (postproc_init stale_world)) = Resolved ()"
    by (simp add: postproc_prepare_def then_p_def claimPostprocTask_def arendel_call_def
      resolve_def example_env_def example_task_reply_def example_spawn_reply_def rm_target_def
      postproc_init_def stale_world_def example_world_def example_study_def emit_def task_of_def empty_obj_def
      postproc_claimed_def modify_self_def StudyCache_register_def cleanup_def execute_def modify_result_def
      resolve_program_def path_resolve_def abs_join_def ends_with_def arg_def interpolate_val_def
      check_descriptor_def interpolatePath_def js_replace_def settle_child_def code_truthy_def
      signal_truthy_def log_spawn_error_def rm_rf_def Let_def)
  from workspace_at_start_of_stage [OF rm_removes_example h2 h3 h4', of "Str ''workspace://SpacesStore/sim-1''"]
     rm_removes_example h2 h3 h4 m s pp
  show ?thesis by (simp add: p)
qed

subsection \<open>What a pipeline leaves unchanged in the study\<close>

lemma preservesD: "preserves P p \<Longrightarrow> P (self w) \<Longrightarrow> p w = (out, w') \<Longrightarrow> P (self w')"
  unfolding preserves_def by blast

lemma preservesI: "(\<And>w out w'. P (self w) \<Longrightarrow> p w = (out, w') \<Longrightarrow> P (self w')) \<Longrightarrow> preserves P p"
  unfolding preserves_def by blast

lemma preserves_then:
  assumes p: "preserves P p" and f: "\<And>x. preserves P (f x)"
  shows "preserves P (then_p p f)"
proof (rule preservesI)
  fix w out w' assume P: "P (self w)" and t: "then_p p f w = (out, w')"
  obtain o1 w1 where pw: "p w = (o1, w1)" by (cases "p w")
  from preservesD [OF p P pw] have P1: "P (self w1)" .
  show "P (self w')"
  proof (cases o1)
    case (Resolved x)
    with t pw have "f x w1 = (out, w')" by (simp add: then_p_def)
    from preservesD [OF f P1 this] show ?thesis .
  next
    case (Rejected r)
    with t pw P1 show ?thesis by (auto simp: then_p_def)
  qed
qed

lemma preserves_self:
  "(\<And>x. preserves P (f x)) \<Longrightarrow> preserves P (\<lambda>w. f (g w) w)"
  unfolding preserves_def by blast

lemma preserves_resolve: "preserves P (resolve x)"
  by (simp add: preserves_def resolve_def)

lemma preserves_reject: "preserves P (reject x)"
  by (simp add: preserves_def reject_def)

lemma preserves_arendel_call: "preserves P (arendel_call env ev)"
  by (auto simp: preserves_def arendel_call_def emit_def split: sum.splits)

lemma preserves_client:
  "preserves P (claimMeshingTask env r)" "preserves P (meshingTaskUpdate env r a b c d)"
  "preserves P (claimSimulationTask env rj)" "preserves P (simulationTaskUpdate env rj a b c d)"
  "preserves P (claimPostprocTask env r)" "preserves P (postprocTaskUpdate env r a b c d)"
  by (simp_all add: claimMeshingTask_def meshingTaskUpdate_def claimSimulationTask_def
      simulationTaskUpdate_def claimPostprocTask_def postprocTaskUpdate_def preserves_then
      preserves_arendel_call preserves_resolve)

lemma preserves_folder:
  "preserves P (getInputFolder env r)" "preserves P (getPostprocInputFolder env r)"
  "preserves P (download env nid f)" "preserves P (extract_zip env f)"
proof -
  have g: "preserves P (getChildren env r wh)" for wh
    by (auto simp: preserves_def getChildren_def emit_def split: sum.splits)
  have c: "preserves P (case nodes of [] \<Rightarrow> reject x | n # ns \<Rightarrow> resolve n)" for nodes :: "jsval list" and x
    by (cases nodes) (simp_all add: preserves_resolve preserves_reject)
  show "preserves P (getInputFolder env r)"
    unfolding getInputFolder_def by (intro preserves_then g c)
  show "preserves P (getPostprocInputFolder env r)"
    unfolding getPostprocInputFolder_def by (intro preserves_then g c)
  show "preserves P (download env nid f)"
    by (auto simp: preserves_def download_def emit_def split: prod.splits option.splits)
  show "preserves P (extract_zip env f)"
    by (auto simp: preserves_def extract_zip_def Logger_error_def Let_def split: prod.splits option.splits)
qed

lemma preserves_execute:
  assumes "\<And>s c. P s \<Longrightarrow> P (s\<lparr>child := c\<rparr>)"
  shows "preserves P (execute env prg args wd)"
proof (rule preservesI)
  fix w out w' assume P: "P (self w)" and e: "execute env prg args wd w = (out, w')"
  show "P (self w')"
  proof (cases "resolve_program env prg (files w)")
    case (Inl r)
    with e P show ?thesis by (simp add: execute_def)
  next
    case (Inr sc)
    obtain script0 sd where sc: "sc = (script0, sd)" by (cases sc)
    let ?b = "build_args sd (path (self w)) args (if ends_with script0 ''.py'' then [Str script0] else []) (files w)"
    obtain res fs' where b: "?b = (res, fs')" by (cases ?b)
    show ?thesis
    proof (cases res)
      case (Inl r)
      with e P \<open>resolve_program env prg (files w) = Inr sc\<close> sc b show ?thesis
        by (auto simp add: execute_def Let_def)
    next
      case (Inr argv)
      with e \<open>resolve_program env prg (files w) = Inr sc\<close> sc b
      have "\<exists>c. self w' = (self w)\<lparr>child := c\<rparr>"
        by (auto simp: execute_def Let_def modify_self_def emit_def log_spawn_error_def
            Logger_error_def split: prod.splits proc_end.splits)
      with P assms show ?thesis by auto
    qed
  qed
qed

lemma preserves_archives:
  assumes "\<And>s c. P s \<Longrightarrow> P (s\<lparr>child := c\<rparr>)"
  shows "preserves P (cleanup env)" "preserves P (compress env stage l)" "preserves P (uncompress env stage)"
proof -
  have ex: "preserves P (execute env prg args wd)" for prg args wd
    by (rule preserves_execute) (rule assms)
  show "preserves P (cleanup env)"
  proof (rule preservesI)
    fix w out w' assume P: "P (self w)" and c: "cleanup env w = (out, w')"
    show "P (self w')"
    proof (cases "path (self w) = [] \<or> \<not> existsSync (files w) (Str (path (self w)))")
      case True
      with c P show ?thesis by (auto simp add: cleanup_def)
    next
      case False
      with c have "then_p (execute env ''rm''
                    [arg (Str ''-rf'') Undefined Undefined,
                     arg Undefined (Str (path (self w))) Undefined]
                    (Some (path_resolve (processCwd env) [studiesDir env])))
            (\<lambda>r. resolve ()) w = (out, w')" by (auto simp add: cleanup_def)
      from preservesD [OF preserves_then [OF ex preserves_resolve] P this] show ?thesis .
    qed
  qed
  show "preserves P (compress env stage l)"
  proof (rule preservesI)
    fix w out w' assume P: "P (self w)" and c: "compress env stage l w = (out, w')"
    let ?u = "if existsSync (files w) (Str (archive_name env (self w) stage))
              then unlinkSync (archive_name env (self w) stage) (files w) else Inr (files w)"
    show "P (self w')"
    proof (cases ?u)
      case (Inl msg)
      with c P show ?thesis by (simp add: compress_def Let_def)
    next
      case (Inr fs')
      with c have "then_p (execute env ''7z''
                      ([arg (Str ''a'') Undefined Undefined,
                        arg (Str ''-r'') Undefined Undefined,
                        arg Undefined (Str (archive_name env (self w) stage)) Undefined]
                       @ (case l of
                            Some l \<Rightarrow> l
                          | None \<Rightarrow> [arg Undefined (Str ''{studyDir}'') (Str ''d'')]))
                      (Some (path_resolve (processCwd env) [studiesDir env])))
              (\<lambda>r. resolve (archive_name env (self w) stage)) (w\<lparr>files := fs'\<rparr>) = (out, w')"
        by (simp add: compress_def Let_def)
      moreover from P have "P (self (w\<lparr>files := fs'\<rparr>))" by simp
      ultimately show ?thesis
        by (rule preservesD [OF preserves_then [OF ex preserves_resolve], rotated])
    qed
  qed
  show "preserves P (uncompress env stage)"
  proof (rule preservesI)
    fix w out w' assume P: "P (self w)" and c: "uncompress env stage w = (out, w')"
    from c have "execute env ''7z''
       [arg (Str ''x'') Undefined Undefined,
        arg Undefined (Str (archive_name env (self w) stage)) Undefined]
       (Some (path_resolve (processCwd env) [studiesDir env])) w = (out, w')"
      by (simp add: uncompress_def)
    from preservesD [OF ex P this] show "P (self w')" .
  qed
qed

lemma preserves_updates:
  assumes "\<And>s r. P s \<Longrightarrow> P (s\<lparr>result := Some r\<rparr>)"
  shows "preserves P (updateSimulationTask env stage)" "preserves P (updatePostprocTask env stage)"
    "preserves P (keep_result res)" "preserves P (modify_result f)"
proof -
  have pc4: "preserves P (simulationTaskUpdate env a b c d e)" for a b c d e
    by (rule preserves_client)
  have pc6: "preserves P (postprocTaskUpdate env a b c d e)" for a b c d e
    by (rule preserves_client)
  show "preserves P (updateSimulationTask env stage)"
  proof (rule preservesI)
    fix w out w' assume P: "P (self w)" and u: "updateSimulationTask env stage w = (out, w')"
    show "P (self w')"
    proof (cases "result (self w)")
      case None
      with u P show ?thesis by (simp add: updateSimulationTask_def)
    next
      case (Some r)
      let ?r' = "if truthy stage then r\<lparr>o_stage := stage\<rparr> else r"
      let ?w1 = "modify_self (\<lambda>s. s\<lparr>result := Some ?r'\<rparr>) w"
      from P assms have P1: "P (self ?w1)" by (simp add: modify_self_def)
      show ?thesis
      proof (cases "sim (self w)")
        case None
        with u Some P1 show ?thesis by (simp add: updateSimulationTask_def Let_def)
      next
        case (Some sm)
        with u \<open>result (self w) = Some r\<close>
        have "simulationTaskUpdate env (o_nodeRef sm) (o_status ?r') (o_stage ?r') (o_stdout ?r') (o_stderr ?r') ?w1
               = (out, w')" by (simp add: updateSimulationTask_def Let_def)
        from preservesD [OF pc4 P1 this] show ?thesis .
      qed
    qed
  qed
  show "preserves P (updatePostprocTask env stage)"
  proof (rule preservesI)
    fix w out w' assume P: "P (self w)" and u: "updatePostprocTask env stage w = (out, w')"
    show "P (self w')"
    proof (cases "result (self w)")
      case None
      with u P show ?thesis by (simp add: updatePostprocTask_def)
    next
      case (Some r)
      let ?r' = "if truthy stage then r\<lparr>o_stage := stage\<rparr> else r"
      let ?w1 = "modify_self (\<lambda>s. s\<lparr>result := Some ?r'\<rparr>) w"
      from P assms have P1: "P (self ?w1)" by (simp add: modify_self_def)
      from u Some
      have "postprocTaskUpdate env (nodeRef (self w)) (o_status ?r') (o_stage ?r') (o_stdout ?r') (o_stderr ?r') ?w1
               = (out, w')" by (simp add: updatePostprocTask_def Let_def)
      from preservesD [OF pc6 P1 this] show ?thesis .
    qed
  qed
  show "preserves P (keep_result res)"
    using assms by (auto simp: preserves_def keep_result_def modify_self_def)
  show "preserves P (modify_result f)"
    using assms by (auto simp: preserves_def modify_result_def modify_self_def split: option.splits)
qed

lemma preserves_case_stderr:
  "preserves P (case v of Str e \<Rightarrow> if c e then reject x else resolve y
      | Undefined \<Rightarrow> reject z | Null \<Rightarrow> reject z | Num i \<Rightarrow> reject z)"
  by (cases v) (simp_all add: preserves_resolve preserves_reject)

lemma preserves_postproc_segments:
  assumes ch: "\<And>s c. P s \<Longrightarrow> P (s\<lparr>child := c\<rparr>)"
    and rs: "\<And>s r. P s \<Longrightarrow> P (s\<lparr>result := Some r\<rparr>)"
  shows "preserves P (postproc_populate env archive)"
    "preserves P (postproc_emiCalc env)"
    "preserves P (postproc_meanAndConcat env)"
proof -
  have ex: "preserves P (execute env prg args wd)" for prg args wd
    by (rule preserves_execute) (rule ch)
  have up: "preserves P (updatePostprocTask env stage)" for stage
    by (rule preserves_updates) (rule rs)
  have kr: "preserves P (keep_result res)" for res
    by (rule preserves_updates) (rule rs)
  have un: "preserves P (uncompress env stage)" for stage
    by (rule preserves_archives) (rule ch)
  have gf: "preserves P (\<lambda>w. getPostprocInputFolder env (nodeRef (self w)) w)"
    by (rule preserves_self [of P "getPostprocInputFolder env"]) (rule preserves_folder)
  show "preserves P (postproc_populate env archive)"
    unfolding postproc_populate_def
    by (intro preserves_then up un gf preserves_folder)
  show "preserves P (postproc_emiCalc env)"
    unfolding postproc_emiCalc_def
    by (intro preserves_then up ex kr preserves_case_stderr)
  show "preserves P (postproc_meanAndConcat env)"
    unfolding postproc_meanAndConcat_def
    by (intro preserves_then up ex kr)
qed

lemma postproc_prepare_resolved:
  assumes "postproc_prepare env w = (Resolved (), w')"
  shows "pp (self w') \<noteq> None \<and> path (self w') = path (self w)"
proof -
  from then_p_resolvedD [OF assms [unfolded postproc_prepare_def]]
  obtain m w1 where c1: "claimPostprocTask env (nodeRef (self w)) w = (Resolved m, w1)"
    and r1: "then_p (postproc_claimed m) (\<lambda>u. cleanup env) w1 = (Resolved (), w')" by blast
  from then_p_unitD [OF r1]
  obtain w2 where c2: "postproc_claimed m w1 = (Resolved (), w2)"
    and c3: "cleanup env w2 = (Resolved (), w')" by blast
  from c1 have f1: "path (self w1) = path (self w)"
    by (auto simp: claimPostprocTask_def then_p_def arendel_call_def resolve_def emit_def split: sum.splits)
  from c2 f1 have f2: "pp (self w2) = Some m \<and> path (self w2) = path (self w)"
    by (auto simp: postproc_claimed_def Let_def modify_self_def StudyCache_register_def emit_def
        modify_result_def split: if_splits option.splits)
  have "preserves (\<lambda>s. pp s = Some m \<and> path s = path (self w)) (cleanup env)"
    by (rule preserves_archives) simp
  from preservesD [OF this f2 c3] show ?thesis by simp
qed

lemma until_probes_resolved:
  assumes "postproc_until_probes env archive w = (Resolved (), w2)"
  shows "pp (self w2) \<noteq> None \<and> path (self w2) = path (self w) \<and> result (self w2) \<noteq> None"
proof -
  from then_p_unitD [OF assms [unfolded postproc_until_probes_def]]
  obtain wa where a: "postproc_prepare env w = (Resolved (), wa)"
    and ra: "then_p (postproc_populate env archive) (\<lambda>u. then_p (postproc_emiCalc env)
               (\<lambda>u. postproc_meanAndConcat env)) wa = (Resolved (), w2)" by blast
  from then_p_unitD [OF ra]
  obtain wb where b: "postproc_populate env archive wa = (Resolved (), wb)"
    and rb: "then_p (postproc_emiCalc env) (\<lambda>u. postproc_meanAndConcat env) wb = (Resolved (), w2)" by blast
  from then_p_unitD [OF rb]
  obtain wc where c: "postproc_emiCalc env wb = (Resolved (), wc)"
    and d: "postproc_meanAndConcat env wc = (Resolved (), w2)" by blast
  from postproc_prepare_resolved [OF a] obtain p0 where
    fa: "pp (self wa) = Some p0 \<and> path (self wa) = path (self w)" by auto
  let ?P = "\<lambda>s. pp s = Some p0 \<and> path s = path (self w)"
  have seg: "preserves ?P (postproc_populate env archive)" "preserves ?P (postproc_emiCalc env)"
    "preserves ?P (postproc_meanAndConcat env)"
    by (rule preserves_postproc_segments; simp)+
  from preservesD [OF seg(1) fa b] have fb: "?P (self wb)" .
  from preservesD [OF seg(2) fb c] have fc: "?P (self wc)" .
  from preservesD [OF seg(3) fc d] have fd: "?P (self w2)" .
  from then_p_resolvedD [OF d [unfolded postproc_meanAndConcat_def]]
  obtain t w3 where "then_p (execute env ''meanAndConcat''
               [(arg (Str ''-p_working'') (Str ''{studyDir}'') (Str ''d'')),
                (arg (Str ''-p_output'') (Str ''{studyDir}/probes_treated'') (Str ''d''))\<lparr>createIfMissing := True\<rparr>]
               None) (\<lambda>res. keep_result res) w3 = (Resolved (), w2)" by blast
  from then_p_resolvedD [OF this]
  obtain res w4 where "keep_result res w4 = (Resolved (), w2)" by blast
  then have "result (self w2) \<noteq> None" by (auto simp: keep_result_def modify_self_def)
  with fd show ?thesis by simp
qed

subsection \<open>Evaluating the example environment\<close>

lemma example_paths:
  "path_resolve ''/srv'' [''/srv/studies''] = ''/srv/studies''"
  "path_resolve ''/srv'' [''/srv/studies'', ''e72baac6-meshing.7z''] = ''/srv/studies/e72baac6-meshing.7z''"
  "path_resolve ''/srv'' [''/srv/studies'', ''e72baac6-simulation.7z''] = ''/srv/studies/e72baac6-simulation.7z''"
  "path_resolve ''/srv'' [''/srv/studies'', ''e72baac6-postprocInputs.zip''] = ''/srv/studies/e72baac6-postprocInputs.zip''"
  by (simp_all add: path_resolve_def abs_join_def)

lemma example_interpolations:
  "interpolatePath ''/srv/studies'' ''/srv/studies/e72baac6'' ''/srv/studies'' = ''/srv/studies''"
  "interpolatePath ''/srv/studies'' ''/srv/studies/e72baac6'' ''/srv/studies/e72baac6'' = ''/srv/studies/e72baac6''"
  "interpolatePath ''/srv/studies'' ''/srv/studies/e72baac6'' ''/srv/studies/e72baac6-meshing.7z'' = ''/srv/studies/e72baac6-meshing.7z''"
  "interpolatePath ''/srv/studies'' ''/srv/studies/e72baac6'' ''/srv/studies/e72baac6-simulation.7z'' = ''/srv/studies/e72baac6-simulation.7z''"
  "interpolatePath ''/srv/studies'' ''/srv/studies/e72baac6'' ''{studyDir}'' = ''/srv/studies/e72baac6''"
  "interpolatePath ''/srv/studies'' ''/srv/studies/e72baac6'' ''{scriptDir}'' = ''/srv/studies''"
  "interpolatePath ''/srv/studies'' ''/srv/studies/e72baac6'' ''{studyDir}/emiCalc'' = ''/srv/studies/e72baac6/emiCalc''"
  "interpolatePath ''/srv/studies'' ''/srv/studies/e72baac6'' ''{studyDir}/probes_treated'' = ''/srv/studies/e72baac6/probes_treated''"
  "interpolatePath ''/srv/studies'' ''/srv/studies/e72baac6'' ''{studyDir}/frequencesVent'' = ''/srv/studies/e72baac6/frequencesVent''"
  "interpolatePath ''/srv/studies'' ''/srv/studies/e72baac6'' ''e72baac6'' = ''e72baac6''"
  "interpolatePath ''/srv/studies'' ''/srv/studies/e72baac6'' ''1.5'' = ''1.5''"
  by (simp_all add: interpolatePath_def js_replace_def)

lemma example_dirs:
  "dir_prefixes [] ''/srv/studies/e72baac6'' = [''/srv'', ''/srv/studies'', ''/srv/studies/e72baac6'']"
  "dir_prefixes [] ''/srv/studies/e72baac6/emiCalc''
     = [''/srv'', ''/srv/studies'', ''/srv/studies/e72baac6'', ''/srv/studies/e72baac6/emiCalc'']"
  "dir_prefixes [] ''/srv/studies/e72baac6/probes_treated''
     = [''/srv'', ''/srv/studies'', ''/srv/studies/e72baac6'', ''/srv/studies/e72baac6/probes_treated'']"
  by simp_all

lemmas example_eval =
  then_p_def arendel_call_def resolve_def reject_def example_env_def example_task_reply_def
  example_spawn_reply_def rm_target_def example_world_def example_study_def emit_def task_of_def
  empty_obj_def modify_self_def modify_result_def StudyCache_register_def cleanup_def execute_def
  uncompress_def archive_name_def getChildren_def download_def extract_zip_def on_entry_def
  entry_target_def basename_def resolve_program_def ends_with_def arg_def interpolate_val_def
  check_descriptor_def settle_child_def code_truthy_def signal_truthy_def log_spawn_error_def
  rm_rf_def Let_def setup_study_def mkdirSync_def example_paths example_interpolations example_dirs


lemma example_until_probes:
  "case postproc_until_probes example_env (postproc_archive example_env example_study)
        (postproc_init (example_world\<lparr>files := [''/srv'' \<mapsto> FsDir, ''/srv/studies'' \<mapsto> FsDir,
             ''/srv/studies/e72baac6'' \<mapsto> FsDir]\<rparr>)) of
     (out, w2) \<Rightarrow> out = Resolved ()
        \<and> files w2 ''/srv/studies/e72baac6'' = Some FsDir
        \<and> files w2 ''/srv/studies/e72baac6/probes_treated'' = Some FsDir
        \<and> files w2 ''/srv/studies/e72baac6/frequencesVent'' = None"
  by (simp add: postproc_until_probes_def postproc_prepare_def postproc_populate_def
      postproc_emiCalc_def postproc_meanAndConcat_def postproc_claimed_def postproc_init_def
      postproc_archive_def claimPostprocTask_def postprocTaskUpdate_def updatePostprocTask_def
      keep_result_def getPostprocInputFolder_def example_eval)


subsection \<open>Validation of file arguments\<close>

lemma build_args_append:
  "build_args sd st (xs @ ys) acc fs =
     (case build_args sd st xs acc fs of
        (Inl r, fs') \<Rightarrow> (Inl r, fs')
      | (Inr acc', fs') \<Rightarrow> build_args sd st ys acc' fs')"
  by (induction xs arbitrary: acc fs) (auto simp: Let_def split: prod.splits option.splits sum.splits)

lemma contains_prefix: "prefix pat s \<Longrightarrow> contains pat s"
  by (cases s) auto

lemma contains_append: "contains pat (xs @ pat @ ys)"
  by (induction xs) (auto simp: contains_prefix)

lemma interpolate_frequencesVent:
  "interpolatePath sd st ''{studyDir}/frequencesVent''
     = get_substitution ''{studyDir}'' [] ''/frequencesVent'' st @ ''/frequencesVent''"
  by (simp add: interpolatePath_def js_replace_def)

lemma execute_rejects_missing_file:
  assumes rp: "resolve_program env prgname (files w) = Inr (script0, sd)"
    and pre: "build_args sd (path (self w)) pre (if ends_with script0 ''.py'' then [Str script0] else [])
                (files w) = (Inr acc, fs1)"
    and ty: "type a = Str ''f'' \<or> type a = Str ''file''"
    and va: "val a = Str v"
  shows "(fs1 (interpolatePath sd (path (self w)) v) = None \<longrightarrow>
            execute env prgname (pre @ a # post) workDir w
              = (Rejected (ConfigurationError (interpolatePath sd (path (self w)) v @ '' not found'')),
                 w\<lparr>files := fs1\<rparr>))
       \<and> (fs1 (interpolatePath sd (path (self w)) v) = Some FsDir \<longrightarrow>
            execute env prgname (pre @ a # post) workDir w
              = (Rejected (ConfigurationError (interpolatePath sd (path (self w)) v @ '' is not a file'')),
                 w\<lparr>files := fs1\<rparr>))"
  using rp pre ty va
  by (auto simp: execute_def Let_def build_args_append interpolate_val_def check_descriptor_def)

lemma postproc_reports_missing_frequencesVent:
  assumes nr: "studies w (nodeRef (self w)) = None"
    and su: "setup_study w = Inr w1"
    and up: "postproc_until_probes env (postproc_archive env (self w1)) (postproc_init w1) = (Resolved (), w2)"
    and acc: "accepts_update env (length (trace w2)) ''postproc''"
    and rp: "resolve_program env ''probesMeanYear'' (files w2) = Inr (script0, sd)"
    and d1: "files w2 (interpolatePath sd (path (self w)) ''{studyDir}'') = Some FsDir"
    and d2: "files w2 (interpolatePath sd (path (self w)) ''{studyDir}/probes_treated'') = Some FsDir"
    and f: "files w2 (interpolatePath sd (path (self w)) ''{studyDir}/frequencesVent'') = None"
  shows "fst (postproc env w) = Returns (Resolved ())
     \<and> list_all (\<lambda>e. \<not> is_spawn e) (new_events w2 (snd (postproc env w)))
     \<and> update_status (last (trace (snd (postproc env w)))) = Some (Str ''FAILED'')
     \<and> update_stderr (last (trace (snd (postproc env w))))
         = Some (Str (interpolatePath sd (path (self w)) ''{studyDir}/frequencesVent'' @ '' not found''))"
proof -
  let ?A = "postproc_archive env (self w1)"
  let ?msg = "interpolatePath sd (path (self w)) ''{studyDir}/frequencesVent'' @ '' not found''"
  from su have p1: "path (self w1) = path (self w)"
    by (auto simp: setup_study_def split: if_splits sum.splits)
  then have p1': "path (self (postproc_init w1)) = path (self w)"
    by (simp add: postproc_init_def modify_self_def)
  from until_probes_resolved [OF up] p1'
  obtain r2 p2 where r2: "result (self w2) = Some r2" and pp2: "pp (self w2) = Some p2"
    and p2: "path (self w2) = path (self w)" by auto
  let ?ev1 = "TaskUpdate ''postproc'' (Str (nodeRef (self w2))) (o_status r2) (Str ''probesMeanYear'')
                (o_stdout r2) (o_stderr r2)"
  from acc obtain body where body: "task_reply env (length (trace w2)) ?ev1 = Inr body"
    unfolding accepts_update_def by blast
  let ?w3 = "emit ?ev1 (modify_self (\<lambda>s. s\<lparr>result := Some (r2\<lparr>o_stage := Str ''probesMeanYear''\<rparr>)\<rparr>) w2)"
  have u: "updatePostprocTask env (Str ''probesMeanYear'') w2 = (Resolved (task_of body), ?w3)"
    using r2 body
    by (simp add: updatePostprocTask_def postprocTaskUpdate_def then_p_def arendel_call_def
        resolve_def modify_self_def emit_def)
  have f3: "files ?w3 = files w2" "path (self ?w3) = path (self w)"
    using p2 by (simp_all add: emit_def modify_self_def)
  have e: "execute env ''probesMeanYear''
               [(arg (Str ''-p_working'') (Str ''{studyDir}'') (Str ''d'')),
                (arg (Str ''-p_probes_treated'') (Str ''{studyDir}/probes_treated'') (Str ''d'')),
                (arg (Str ''-p_freq'') (Str ''{studyDir}/frequencesVent'') (Str ''f'')),
                (arg (Str ''-p_sigmo'') (Str ''{studyDir}/parametresSigmoide'') (Str ''f'')),
                (arg (Str ''-p_config'') (Str ''{scriptDir}/config'') (Str ''f''))]
               None ?w3 = (Rejected (ConfigurationError ?msg), ?w3)"
    using rp d1 d2 f
    by (simp add: execute_def f3 Let_def arg_def interpolate_val_def check_descriptor_def)
  have pm: "postproc_probesMeanYear env w2 = (Rejected (ConfigurationError ?msg), ?w3)"
    unfolding postproc_probesMeanYear_def
    by (simp add: then_p_def u e)
  have st: "postproc_steps env ?A (postproc_init w1) = (Rejected (ConfigurationError ?msg), ?w3)"
    unfolding postproc_steps_def
    by (simp add: then_p_def up pm)
  have ex: "\<not> StudyCache_exists w (self w)" using nr by (simp add: StudyCache_exists_def)
  have tr: "trace ?w3 = trace w2 @ [?ev1]" by (simp add: emit_def modify_self_def)
  show ?thesis
    using ex su st r2 pp2
    by (simp add: postproc_def finally_p_def catch_p_def postproc_catch_def then_p_def
        modify_result_def modify_self_def emit_def postproc_finally_def StudyCache_unregister_def
        updatePostprocTask_def postprocTaskUpdate_def arendel_call_def resolve_def Logger_error_def
        new_events_def Let_def split: sum.splits)
qed

text \<open>
  Claim C8, as stated: a run whose \<open>f\<close>-typed path cannot be found as a regular
  file is rejected with the message "<path> not found". When the path exists and is
  not a regular file, the rejection reads "<path> is not a file": with a directory
  in the place of \<open>frequencesVent\<close> the message holds no "not found".
\<close>

theorem directory_reported_as_not_a_file: "files misplaced_world ''/srv/studies/e72baac6/frequencesVent'' = Some FsDir
   \<and> execute example_env ''probesMeanYear''
       [arg (Str ''-p_freq'') (Str ''{studyDir}/frequencesVent'') (Str ''f'')] None misplaced_world
     = (Rejected (ConfigurationError ''/srv/studies/e72baac6/frequencesVent is not a file''), misplaced_world)"
  by (simp add: misplaced_world_def example_eval)


text \<open>
  Claim C8, amended. When the program resolves and every descriptor before an
  \<open>f\<close>-typed one passes its check, \<open>execute\<close> rejects with a
  \<open>ConfigurationError\<close> and spawns nothing, the file system being as the earlier
  checks left it: the message is the interpolated path followed by " not found" when
  nothing exists at the path, and by " is not a file" when a directory does. In a
  post-processing run that reaches the \<open>probesMeanYear\<close> step, whose progress
  update is answered, where the workspace and \<open>probes_treated\<close> are directories and
  \<open>frequencesVent\<close> does not exist, no process is spawned from that step on and the
  last event of the run is the task update with status FAILED whose error output is
  the path of \<open>frequencesVent\<close> followed by " not found".
\<close>

theorem missing_input_file_reported:
  "(resolve_program env prgname (files w) = Inr (script0, sd)
      \<and> build_args sd (path (self w)) pre (if ends_with script0 ''.py'' then [Str script0] else [])
            (files w) = (Inr acc, fs1)
      \<and> (type a = Str ''f'' \<or> type a = Str ''file'') \<and> val a = Str v
    \<longrightarrow> (fs1 (interpolatePath sd (path (self w)) v) = None \<longrightarrow>
            execute env prgname (pre @ a # post) workDir w
              = (Rejected (ConfigurationError (interpolatePath sd (path (self w)) v @ '' not found'')),
                 w\<lparr>files := fs1\<rparr>))
       \<and> (fs1 (interpolatePath sd (path (self w)) v) = Some FsDir \<longrightarrow>
            execute env prgname (pre @ a # post) workDir w
              = (Rejected (ConfigurationError (interpolatePath sd (path (self w)) v @ '' is not a file'')),
                 w\<lparr>files := fs1\<rparr>)))
   \<and> (studies u (nodeRef (self u)) = None
      \<and> setup_study u = Inr u1
      \<and> postproc_until_probes env (postproc_archive env (self u1)) (postproc_init u1) = (Resolved (), u2)
      \<and> accepts_update env (length (trace u2)) ''postproc''
      \<and> resolve_program env ''probesMeanYear'' (files u2) = Inr (script1, sd1)
      \<and> files u2 (interpolatePath sd1 (path (self u)) ''{studyDir}'') = Some FsDir
      \<and> files u2 (interpolatePath sd1 (path (self u)) ''{studyDir}/probes_treated'') = Some FsDir
      \<and> files u2 (interpolatePath sd1 (path (self u)) ''{studyDir}/frequencesVent'') = None
    \<longrightarrow> fst (postproc env u) = Returns (Resolved ())
       \<and> list_all (\<lambda>e. \<not> is_spawn e) (new_events u2 (snd (postproc env u)))
       \<and> update_status (last (trace (snd (postproc env u)))) = Some (Str ''FAILED'')
       \<and> update_stderr (last (trace (snd (postproc env u))))
           = Some (Str (interpolatePath sd1 (path (self u)) ''{studyDir}/frequencesVent'' @ '' not found''))
       \<and> contains ''frequencesVent not found''
           (interpolatePath sd1 (path (self u)) ''{studyDir}/frequencesVent'' @ '' not found''))"
proof (intro conjI impI)
  assume h: "resolve_program env prgname (files w) = Inr (script0, sd)
      \<and> build_args sd (path (self w)) pre (if ends_with script0 ''.py'' then [Str script0] else [])
            (files w) = (Inr acc, fs1)
      \<and> (type a = Str ''f'' \<or> type a = Str ''file'') \<and> val a = Str v"
  then have p1: "(fs1 (interpolatePath sd (path (self w)) v) = None \<longrightarrow>
            execute env prgname (pre @ a # post) workDir w
              = (Rejected (ConfigurationError (interpolatePath sd (path (self w)) v @ '' not found'')),
                 w\<lparr>files := fs1\<rparr>))
       \<and> (fs1 (interpolatePath sd (path (self w)) v) = Some FsDir \<longrightarrow>
            execute env prgname (pre @ a # post) workDir w
              = (Rejected (ConfigurationError (interpolatePath sd (path (self w)) v @ '' is not a file'')),
                 w\<lparr>files := fs1\<rparr>))"
    using execute_rejects_missing_file [of env prgname w script0 sd pre acc fs1 a v post workDir] by blast
  { assume "fs1 (interpolatePath sd (path (self w)) v) = None"
    with p1 show "execute env prgname (pre @ a # post) workDir w
              = (Rejected (ConfigurationError (interpolatePath sd (path (self w)) v @ '' not found'')),
                 w\<lparr>files := fs1\<rparr>)" by simp }
  { assume "fs1 (interpolatePath sd (path (self w)) v) = Some FsDir"
    with p1 show "execute env prgname (pre @ a # post) workDir w
              = (Rejected (ConfigurationError (interpolatePath sd (path (self w)) v @ '' is not a file'')),
                 w\<lparr>files := fs1\<rparr>)" by simp }
next
  assume h: "studies u (nodeRef (self u)) = None
      \<and> setup_study u = Inr u1
      \<and> postproc_until_probes env (postproc_archive env (self u1)) (postproc_init u1) = (Resolved (), u2)
      \<and> accepts_update env (length (trace u2)) ''postproc''
      \<and> resolve_program env ''probesMeanYear'' (files u2) = Inr (script1, sd1)
      \<and> files u2 (interpolatePath sd1 (path (self u)) ''{studyDir}'') = Some FsDir
      \<and> files u2 (interpolatePath sd1 (path (self u)) ''{studyDir}/probes_treated'') = Some FsDir
      \<and> files u2 (interpolatePath sd1 (path (self u)) ''{studyDir}/frequencesVent'') = None"
  then have p2: "fst (postproc env u) = Returns (Resolved ())
     \<and> list_all (\<lambda>e. \<not> is_spawn e) (new_events u2 (snd (postproc env u)))
     \<and> update_status (last (trace (snd (postproc env u)))) = Some (Str ''FAILED'')
     \<and> update_stderr (last (trace (snd (postproc env u))))
         = Some (Str (interpolatePath sd1 (path (self u)) ''{studyDir}/frequencesVent'' @ '' not found''))"
    using postproc_reports_missing_frequencesVent [of u u1 env u2 script1 sd1] by blast
  from p2 show "fst (postproc env u) = Returns (Resolved ())" by simp
  from p2 show "list_all (\<lambda>e. \<not> is_spawn e) (new_events u2 (snd (postproc env u)))" by simp
  from p2 show "update_status (last (trace (snd (postproc env u)))) = Some (Str ''FAILED'')" by simp
  from p2 show "update_stderr (last (trace (snd (postproc env u))))
         = Some (Str (interpolatePath sd1 (path (self u)) ''{studyDir}/frequencesVent'' @ '' not found''))"
    by simp
  have "interpolatePath sd1 (path (self u)) ''{studyDir}/frequencesVent'' @ '' not found''
      = (get_substitution ''{studyDir}'' [] ''/frequencesVent'' (path (self u)) @ ''/'')
          @ ''frequencesVent not found'' @ []"
    by (simp add: interpolate_frequencesVent)
  then show "contains ''frequencesVent not found''
           (interpolatePath sd1 (path (self u)) ''{studyDir}/frequencesVent'' @ '' not found'')"
    by (simp only: contains_append)
qed



theorem missing_input_file_reported_witness:
  "studies example_world (nodeRef (self example_world)) = None
   \<and> fst (postproc example_env example_world) = Returns (Resolved ())
   \<and> update_status (last (trace (snd (postproc example_env example_world)))) = Some (Str ''FAILED'')
   \<and> update_stderr (last (trace (snd (postproc example_env example_world))))
       = Some (Str ''/srv/studies/e72baac6/frequencesVent not found'')
   \<and> files stale_world ''/srv/studies/e72baac6/frequencesVent'' = None
   \<and> execute example_env ''probesMeanYear''
        [arg (Str ''-p_working'') (Str ''{studyDir}'') (Str ''d''),
         arg (Str ''-p_freq'') (Str ''{studyDir}/frequencesVent'') (Str ''f'')] None stale_world
       = (Rejected (ConfigurationError ''/srv/studies/e72baac6/frequencesVent not found''), stale_world)"
proof -
  define u1 where "u1 = example_world\<lparr>files := [''/srv'' \<mapsto> FsDir, ''/srv/studies'' \<mapsto> FsDir,
             ''/srv/studies/e72baac6'' \<mapsto> FsDir]\<rparr>"
  define u2 where "u2 = snd (postproc_until_probes example_env
             (postproc_archive example_env example_study) (postproc_init u1))"
  have s1: "self u1 = example_study" "self example_world = example_study"
    "path example_study = ''/srv/studies/e72baac6''"
    by (simp_all add: u1_def example_world_def example_study_def)
  have a1: "studies example_world (nodeRef (self example_world)) = None"
    by (simp add: example_world_def)
  have a2: "setup_study example_world = Inr u1"
    by (simp add: u1_def setup_study_def mkdirSync_def example_world_def example_study_def
        example_dirs fun_eq_iff)
  have e: "postproc_until_probes example_env (postproc_archive example_env (self u1)) (postproc_init u1)
        = (Resolved (), u2)
      \<and> files u2 ''/srv/studies/e72baac6'' = Some FsDir
      \<and> files u2 ''/srv/studies/e72baac6/probes_treated'' = Some FsDir
      \<and> files u2 ''/srv/studies/e72baac6/frequencesVent'' = None"
    using example_until_probes unfolding u2_def s1 u1_def by (simp add: s1 split: prod.splits)
  have a4: "accepts_update example_env (length (trace u2)) ''postproc''"
    by (simp add: accepts_update_def example_env_def example_task_reply_def)
  have a5: "resolve_program example_env ''probesMeanYear'' (files u2)
      = Inr (''probesMeanYear'', ''/srv/studies'')"
    by (simp add: resolve_program_def example_env_def example_paths)
  have b1: "resolve_program example_env ''probesMeanYear'' (files stale_world)
      = Inr (''probesMeanYear'', ''/srv/studies'')"
    by (simp add: resolve_program_def example_env_def example_paths)
  have s2: "path (self stale_world) = ''/srv/studies/e72baac6''"
    "files stale_world ''/srv/studies/e72baac6/frequencesVent'' = None"
    "files stale_world ''/srv/studies/e72baac6'' = Some FsDir"
    by (simp_all add: stale_world_def example_world_def example_study_def)
  have b2: "build_args ''/srv/studies'' (path (self stale_world))
        [arg (Str ''-p_working'') (Str ''{studyDir}'') (Str ''d'')]
        (if ends_with ''probesMeanYear'' ''.py'' then [Str ''probesMeanYear''] else [])
        (files stale_world)
      = (Inr [Str ''-p_working'', Str ''/srv/studies/e72baac6''], files stale_world)"
    by (simp add: s2 ends_with_def arg_def interpolate_val_def check_descriptor_def
        example_interpolations)
  have b3: "stale_world\<lparr>files := files stale_world\<rparr> = stale_world" by simp
  show ?thesis
    using missing_input_file_reported [of example_env "''probesMeanYear''" stale_world "''probesMeanYear''" "''/srv/studies''"
        "[arg (Str ''-p_working'') (Str ''{studyDir}'') (Str ''d'')]"
        "[Str ''-p_working'', Str ''/srv/studies/e72baac6'']" "files stale_world"
        "arg (Str ''-p_freq'') (Str ''{studyDir}/frequencesVent'') (Str ''f'')"
        "''{studyDir}/frequencesVent''" "[]" None
        example_world u1 u2 "''probesMeanYear''" "''/srv/studies''"]
      a1 a2 e a4 a5 b1 b2 s2
    by (simp add: s1 example_interpolations arg_def)
qed

subsection \<open>A simulation that diverges\<close>

lemma execute_resolved_output:
  "execute env prg args wd w = (Resolved res, w')
   \<Longrightarrow> \<exists>out err. o_stdout res = Str out \<and> o_stderr res = Str err"
  by (auto simp: execute_def Let_def settle_child_def
      split: sum.splits prod.splits proc_end.splits if_splits)

lemma verdict_failed_update: "preserves verdict_failed (updateSimulationTask env stage)"
proof (rule preservesI)
  fix w out w' assume P: "verdict_failed (self w)"
    and u: "updateSimulationTask env stage w = (out, w')"
  from P obtain sm r where s: "sim (self w) = Some sm" and r: "result (self w) = Some r"
    and f: "final_status sm r = Str BG_TASK_STATUS_FAILED"
    by (auto simp: verdict_failed_def split: option.splits)
  let ?r = "if truthy stage then r\<lparr>o_stage := stage\<rparr> else r"
  let ?w = "modify_self (\<lambda>s. s\<lparr>result := Some ?r\<rparr>) w"
  have v: "verdict_failed (self ?w)"
    using s r f by (auto simp: verdict_failed_def modify_self_def final_status_def split: if_splits)
  have pc: "preserves verdict_failed
          (simulationTaskUpdate env (o_nodeRef sm) (o_status ?r) (o_stage ?r) (o_stdout ?r) (o_stderr ?r))"
    by (rule preserves_client)
  from u s r have eq:
    "simulationTaskUpdate env (o_nodeRef sm) (o_status ?r) (o_stage ?r) (o_stdout ?r) (o_stderr ?r) ?w
       = (out, w')"
    by (simp add: updateSimulationTask_def Let_def modify_self_def)
  from preservesD [OF pc v eq] show "verdict_failed (self w')" .
qed

lemma verdict_failed_compress: "preserves verdict_failed (compress env stage l)"
  by (rule preserves_archives) (auto simp: verdict_failed_def split: option.splits)

lemma verdict_failed_pack_rest:
  "preserves verdict_failed
     (then_p (updateSimulationTask env (Str ''compressing'')) (\<lambda>t.
      then_p (compress env STUDY_STEP_SIMULATION None) (\<lambda>filename. resolve (Str filename))))"
  by (intro preserves_then verdict_failed_update verdict_failed_compress preserves_resolve)

lemma startSimulation_catch_fails:
  assumes "sim (self w) \<noteq> None" and "result (self w) \<noteq> None"
  shows "fst (startSimulation_catch r w) = Resolved Undefined
     \<and> verdict_failed (self (snd (startSimulation_catch r w)))
     \<and> trace (snd (startSimulation_catch r w)) = trace w"
  using assms
  by (cases r)
     (auto simp: startSimulation_catch_def then_p_def modify_result_def modify_self_def resolve_def
        verdict_failed_def final_status_def)

lemma startSimulation_finally_reports:
  assumes "verdict_failed (self w)"
  shows "update_status (last (trace (snd (startSimulation_finally env w)))) = Some (Str BG_TASK_STATUS_FAILED)
     \<and> fst (startSimulation_finally env w) = Resolved ()
     \<and> (\<exists>ys. trace (snd (startSimulation_finally env w)) = trace w @ ys)"
  using assms
  by (auto simp: startSimulation_finally_def StudyCache_unregister_def emit_def verdict_failed_def
      Let_def modify_self_def updateSimulationTask_def simulationTaskUpdate_def then_p_def
      arendel_call_def resolve_def Logger_error_def
      split: option.splits sum.splits prod.splits outcome.splits)

lemma then_p_step: "p w = (Resolved x, w') \<Longrightarrow> then_p p f w = f x w'"
  by (simp add: then_p_def)

lemma until_exit_resolved:
  assumes "startSimulation_until_exit env simNodeRef w = (Resolved res, w1)"
  shows "sim (self w1) \<noteq> None \<and> (\<exists>out err. o_stdout res = Str out \<and> o_stderr res = Str err)"
proof -
  let ?P = "\<lambda>s. sim s \<noteq> None"
  from then_p_unitD [OF assms [unfolded startSimulation_until_exit_def]]
  obtain wa where a: "startSimulation_prepare env simNodeRef w = (Resolved (), wa)"
    and ra: "then_p (startSimulation_populate env) (\<lambda>r. startSimulation_simulate env) wa
               = (Resolved res, w1)" by blast
  from then_p_resolvedD [OF ra]
  obtain r wb where b: "startSimulation_populate env wa = (Resolved r, wb)"
    and c: "startSimulation_simulate env wb = (Resolved res, w1)" by blast
  from then_p_resolvedD [OF a [unfolded startSimulation_prepare_def]]
  obtain sm w2 where "then_p (startSimulation_claimed sm) (\<lambda>u. cleanup env) w2 = (Resolved (), wa)"
    by blast
  from then_p_unitD [OF this]
  obtain w3 where c2: "startSimulation_claimed sm w2 = (Resolved (), w3)"
    and c3: "cleanup env w3 = (Resolved (), wa)" by blast
  from c2 have f3: "?P (self w3)"
    by (auto simp: startSimulation_claimed_def Let_def modify_self_def StudyCache_register_def
        emit_def split: if_splits)
  have cl: "preserves ?P (cleanup env)" by (rule preserves_archives) simp
  have up: "preserves ?P (updateSimulationTask env stage)" for stage
    by (rule preserves_updates) simp
  have un: "preserves ?P (uncompress env stage)" for stage
    by (rule preserves_archives) simp
  have ex: "preserves ?P (execute env prg args wd)" for prg args wd
    by (rule preserves_execute) simp
  have po: "preserves ?P (startSimulation_populate env)"
    unfolding startSimulation_populate_def by (intro preserves_then up un)
  from preservesD [OF cl f3 c3] have fa: "?P (self wa)" .
  from preservesD [OF po fa b] have fb: "?P (self wb)" .
  from then_p_resolvedD [OF c [unfolded startSimulation_simulate_def]]
  obtain t wc where u: "updateSimulationTask env (Str ''simulation'') wb = (Resolved t, wc)"
    and e: "execute env ''simulation''
       [(arg (Str ''-p'') (Str ''{studyDir}'') (Str ''d'')),
        (arg (Str ''-e'') (Str (nodeId (self wc))) Undefined),
        (arg (Str ''-n'') (Num 30) Undefined),
        (arg (Str ''-s'') (Str ''1.5'') Undefined)]
       None wc = (Resolved res, w1)" by blast
  from preservesD [OF up fb u] have fc: "?P (self wc)" .
  from preservesD [OF ex fc e] have "?P (self w1)" .
  with execute_resolved_output [OF e] show ?thesis by simp
qed

lemma startSimulation_checked_diverged:
  assumes s: "sim (self w) = Some sm" and o: "o_stdout res = Str out" "o_stderr res = Str err"
    and dv: "REGEXP_SIMULATION_ERROR err \<or> REGEXP_SIMULATION_ERROR out"
  shows "startSimulation_checked res w
     = (Resolved (), modify_self (\<lambda>s. s\<lparr>result := Some (res\<lparr>o_status := Str BG_TASK_STATUS_RUNNING\<rparr>),
                                        sim := Some (sm\<lparr>o_status := Str BG_TASK_STATUS_FAILED\<rparr>)\<rparr>) w)"
  using s o dv
  by (auto simp: startSimulation_checked_def simulation_verdict_def modify_sim_def modify_self_def Let_def)

lemma path_resolve_nonempty: "path_resolve cwd args \<noteq> []"
proof -
  have "abs_join segs \<noteq> []" for segs by (cases segs) (simp_all add: abs_join_def)
  then show ?thesis by (simp add: path_resolve_def)
qed

lemma compress_spawns:
  assumes nd: "files w (archive_name env (self w) stage) \<noteq> Some FsDir"
    and rp: "resolve_program env ''7z'' ((files w)(archive_name env (self w) stage := None)) = Inr (script0, sd)"
    and wd: "files w (interpolatePath sd (path (self w)) ''{studyDir}'') = Some FsDir"
  shows "trace (snd (compress env stage None w)) = trace w @
     [Spawn (if ends_with script0 ''.py'' then airetd_python env else script0)
        ((if ends_with script0 ''.py'' then [Str script0] else [])
           @ [Str ''a'', Str ''-r'', Str (interpolatePath sd (path (self w)) (archive_name env (self w) stage)),
              Str (interpolatePath sd (path (self w)) ''{studyDir}'')])
        (interpolatePath sd (path (self w)) (path_resolve (processCwd env) [studiesDir env]))]"
proof -
  let ?A = "archive_name env (self w) stage"
  let ?fs = "(files w)(?A := None)"
  have u: "(if existsSync (files w) (Str ?A) then unlinkSync ?A (files w) else Inr (files w)) = Inr ?fs"
    using nd by (cases "files w ?A") (auto simp: unlinkSync_def split: fnode.splits)
  from nd wd have ne: "interpolatePath sd (path (self w)) ''{studyDir}'' \<noteq> ?A" by auto
  with wd have wd': "?fs (interpolatePath sd (path (self w)) ''{studyDir}'') = Some FsDir" by simp
  let ?ev = "Spawn (if ends_with script0 ''.py'' then airetd_python env else script0)
        ((if ends_with script0 ''.py'' then [Str script0] else [])
           @ [Str ''a'', Str ''-r'', Str (interpolatePath sd (path (self w)) ?A),
              Str (interpolatePath sd (path (self w)) ''{studyDir}'')])
        (interpolatePath sd (path (self w)) (path_resolve (processCwd env) [studiesDir env]))"
  let ?args = "[arg (Str ''a'') Undefined Undefined, arg (Str ''-r'') Undefined Undefined,
                arg Undefined (Str ?A) Undefined, arg Undefined (Str ''{studyDir}'') (Str ''d'')]"
  let ?wd = "Some (path_resolve (processCwd env) [studiesDir env])"
  have c: "compress env stage None w
      = then_p (execute env ''7z'' ?args ?wd) (\<lambda>r. resolve ?A) (w\<lparr>files := ?fs\<rparr>)"
    unfolding compress_def Let_def u by simp
  have e: "execute env ''7z'' ?args ?wd (w\<lparr>files := ?fs\<rparr>)
      = (case spawn_reply env (length (trace w)) ?ev ?fs of
           (e, pid, fs'') \<Rightarrow>
             (settle_child e,
              log_spawn_error ''7z'' e
                (modify_self (\<lambda>s. s\<lparr>child := Some (Child pid)\<rparr>) (emit ?ev (w\<lparr>files := fs''\<rparr>)))))"
    using rp wd'
    by (simp add: execute_def Let_def arg_def interpolate_val_def check_descriptor_def
        path_resolve_nonempty)
  obtain e0 pid fs'' where sr: "spawn_reply env (length (trace w)) ?ev ?fs = (e0, pid, fs'')"
    by (cases "spawn_reply env (length (trace w)) ?ev ?fs")
  show ?thesis
    unfolding c then_p_def e sr
    by (cases e0; cases "settle_child e0")
       (simp_all add: emit_def modify_self_def log_spawn_error_def Logger_error_def resolve_def)
qed

lemma then_resolve_snd: "snd (then_p p (\<lambda>x. resolve (g x)) w) = snd (p w)"
  by (simp add: then_p_def resolve_def split: prod.splits outcome.splits)


lemmas simulation_eval =
  startSimulation_until_exit_def startSimulation_prepare_def startSimulation_populate_def
  startSimulation_simulate_def startSimulation_claimed_def startSimulation_init_def
  claimSimulationTask_def simulationTaskUpdate_def updateSimulationTask_def

lemma example_until_exit:
  "case startSimulation_until_exit example_env (Str ''workspace://SpacesStore/sim-1'')
          (startSimulation_init example_world) of
     (out, w1) \<Rightarrow>
       out = Resolved (empty_obj\<lparr>o_stdout := Str ''Time = 1'',
                                  o_stderr := Str (''le calcul a diverg'' @ [CHR 0xC3, CHR 0xA9])\<rparr>)
       \<and> files w1 ''/srv/studies/e72baac6-simulation.7z'' = None
       \<and> files w1 ''/srv/studies/e72baac6'' = Some FsDir
       \<and> path (self w1) = ''/srv/studies/e72baac6''
       \<and> nodeId (self w1) = ''e72baac6''"
  by (simp add: simulation_eval example_eval)

text \<open>
  Claim C2, as stated: in every simulation run whose child exits with code 0 while
  its output matches the failure pattern, the pipeline still performs the compress
  step and the final task update carries the status FAILED. The progress report
  \<open>compressing\<close> stands between the check of the output and \<open>compress\<close> in the
  promise chain: when the repository rejects it, the chain goes to its handler, no
  archiver is spawned and no archive is written. The final update is FAILED.
\<close>

theorem diverged_simulation_skips_compress:
  "fst (startSimulation_until_exit failing_report_env (Str ''workspace://SpacesStore/sim-1'')
          (startSimulation_init example_world))
     = Resolved (empty_obj\<lparr>o_stdout := Str ''Time = 1'',
                  o_stderr := Str (''le calcul a diverg'' @ [CHR 0xC3, CHR 0xA9])\<rparr>)
   \<and> REGEXP_SIMULATION_ERROR (''le calcul a diverg'' @ [CHR 0xC3, CHR 0xA9])
   \<and> trace (snd (startSimulation failing_report_env (Str ''workspace://SpacesStore/sim-1'') example_world))
     = [ClaimTask ''simulation'' (Str ''workspace://SpacesStore/sim-1''),
        Register ''workspace://SpacesStore/e72baac6'',
        TaskUpdate ''simulation'' (Str ''workspace://SpacesStore/sim-1'') (Str ''RUNNING'')
          (Str ''uncompress'') (Str []) (Str []),
        Spawn ''7z'' [Str ''x'', Str ''/srv/studies/e72baac6-meshing.7z''] ''/srv/studies'',
        TaskUpdate ''simulation'' (Str ''workspace://SpacesStore/sim-1'') (Str ''RUNNING'')
          (Str ''simulation'') (Str []) (Str []),
        Spawn ''simulation'' [Str ''-p'', Str ''/srv/studies/e72baac6'', Str ''-e'', Str ''e72baac6'',
          Str ''-n'', Num 30, Str ''-s'', Str ''1.5''] ''/srv/studies/e72baac6'',
        TaskUpdate ''simulation'' (Str ''workspace://SpacesStore/sim-1'') (Str ''RUNNING'')
          (Str ''compressing'') (Str ''Time = 1'') (Str (''le calcul a diverg'' @ [CHR 0xC3, CHR 0xA9])),
        Unregister ''workspace://SpacesStore/e72baac6'',
        TaskUpdate ''simulation'' (Str ''workspace://SpacesStore/sim-1'') (Str ''FAILED'')
          (Str ''compressing'') (Str ''Time = 1'')
          (Str (''le calcul a diverg'' @ [CHR 0xC3, CHR 0xA9] @ [CHR 0x0A] @ ''Unexected error (code: 500)''))]
   \<and> files (snd (startSimulation failing_report_env (Str ''workspace://SpacesStore/sim-1'') example_world))
        ''/srv/studies/e72baac6-simulation.7z'' = None"
  by (simp add: simulation_eval example_eval failing_report_env_def
      startSimulation_def StudyCache_exists_def finally_p_def catch_p_def startSimulation_steps_def
      startSimulation_pack_def startSimulation_checked_def simulation_verdict_def
      REGEXP_SIMULATION_ERROR_def modify_sim_def startSimulation_catch_def js_append_def
      startSimulation_finally_def final_status_def StudyCache_unregister_def Logger_error_def
      compress_def unlinkSync_def)

text \<open>
  Claim C2, amended. In every simulation run whose child exits with code 0 while its
  standard output or error output matches the failure pattern, the last event is the
  task update of the finaliser, with status FAILED. When moreover the repository
  answers the progress report \<open>compressing\<close>, no directory stands at the path of the
  archive, the program \<open>7z\<close> resolves and the workspace is a directory, the pipeline
  performs the compress step: after the exit of the simulation it spawns the archiver
  with \<open>a -r\<close>, the path of the simulation archive and the workspace, in the studies
  directory.
\<close>

theorem diverged_simulation_reports_failed:
  assumes nr: "studies w (nodeRef (self w)) = None"
    and ue: "startSimulation_until_exit env simNodeRef (startSimulation_init w) = (Resolved res, w1)"
    and dv: "REGEXP_SIMULATION_ERROR (js_str (o_stderr res)) \<or> REGEXP_SIMULATION_ERROR (js_str (o_stdout res))"
  shows "update_status (last (trace (snd (startSimulation env simNodeRef w)))) = Some (Str ''FAILED'')
     \<and> (accepts_update env (length (trace w1)) ''simulation''
        \<and> files w1 (archive_name env (self w1) ''simulation'') \<noteq> Some FsDir
        \<and> resolve_program env ''7z'' ((files w1)(archive_name env (self w1) ''simulation'' := None))
            = Inr (script0, sd)
        \<and> files w1 (interpolatePath sd (path (self w1)) ''{studyDir}'') = Some FsDir
       \<longrightarrow> Spawn (if ends_with script0 ''.py'' then airetd_python env else script0)
             ((if ends_with script0 ''.py'' then [Str script0] else [])
                @ [Str ''a'', Str ''-r'',
                   Str (interpolatePath sd (path (self w1)) (archive_name env (self w1) ''simulation'')),
                   Str (interpolatePath sd (path (self w1)) ''{studyDir}'')])
             (interpolatePath sd (path (self w1)) (path_resolve (processCwd env) [studiesDir env]))
           \<in> set (new_events w1 (snd (startSimulation env simNodeRef w))))"
proof -
  from until_exit_resolved [OF ue] obtain sm out err where s: "sim (self w1) = Some sm"
    and o: "o_stdout res = Str out" "o_stderr res = Str err" by auto
  let ?r2 = "res\<lparr>o_status := Str BG_TASK_STATUS_RUNNING\<rparr>"
  let ?w2 = "modify_self (\<lambda>s. s\<lparr>result := Some ?r2,
                                  sim := Some (sm\<lparr>o_status := Str BG_TASK_STATUS_FAILED\<rparr>)\<rparr>) w1"
  let ?rest = "then_p (updateSimulationTask env (Str ''compressing'')) (\<lambda>t.
      then_p (compress env STUDY_STEP_SIMULATION None) (\<lambda>filename. resolve (Str filename)))"
  from dv o have dv': "REGEXP_SIMULATION_ERROR err \<or> REGEXP_SIMULATION_ERROR out" by simp
  have ck: "startSimulation_checked res w1 = (Resolved (), ?w2)"
    by (rule startSimulation_checked_diverged [OF s o dv'])
  have v2: "verdict_failed (self ?w2)"
    by (simp add: verdict_failed_def modify_self_def final_status_def)
  obtain o3 w3 where r3: "?rest ?w2 = (o3, w3)" by (cases "?rest ?w2")
  from preservesD [OF verdict_failed_pack_rest v2 r3] have v3: "verdict_failed (self w3)" .
  have st: "startSimulation_steps env simNodeRef (startSimulation_init w) = (o3, w3)"
  proof -
    have "startSimulation_steps env simNodeRef (startSimulation_init w) = startSimulation_pack env res w1"
      unfolding startSimulation_steps_def
      by (rule then_p_step [of "startSimulation_until_exit env simNodeRef"]) (rule ue)
    also have "\<dots> = ?rest ?w2"
      unfolding startSimulation_pack_def
      by (rule then_p_step [of "startSimulation_checked res"]) (rule ck)
    finally show ?thesis using r3 by simp
  qed
  obtain o4 w4 where r4: "catch_p (startSimulation_steps env simNodeRef) startSimulation_catch
       (startSimulation_init w) = (o4, w4)"
    by (cases "catch_p (startSimulation_steps env simNodeRef) startSimulation_catch (startSimulation_init w)")
  have v4: "verdict_failed (self w4) \<and> trace w4 = trace w3"
  proof (cases o3)
    case (Resolved x)
    with r4 st v3 show ?thesis by (simp add: catch_p_def)
  next
    case (Rejected r)
    from v3 have "sim (self w3) \<noteq> None" "result (self w3) \<noteq> None"
      by (auto simp: verdict_failed_def split: option.splits)
    from startSimulation_catch_fails [OF this, of r] r4 st Rejected show ?thesis
      by (auto simp: catch_p_def)
  qed
  have ex: "\<not> StudyCache_exists w (self w)" using nr by (simp add: StudyCache_exists_def)
  from v4 have fr: "update_status (last (trace (snd (startSimulation_finally env w4)))) = Some (Str BG_TASK_STATUS_FAILED)"
    "fst (startSimulation_finally env w4) = Resolved ()"
    "\<exists>ys. trace (snd (startSimulation_finally env w4)) = trace w4 @ ys"
    using startSimulation_finally_reports [of w4 env] by simp_all
  from ex r4 fr(2) have fin: "snd (startSimulation env simNodeRef w) = snd (startSimulation_finally env w4)"
    by (auto simp: startSimulation_def finally_p_def split: prod.splits outcome.splits)
  have a: "update_status (last (trace (snd (startSimulation env simNodeRef w)))) = Some (Str ''FAILED'')"
    using fr(1) fin by simp
  have b: "Spawn (if ends_with script0 ''.py'' then airetd_python env else script0)
             ((if ends_with script0 ''.py'' then [Str script0] else [])
                @ [Str ''a'', Str ''-r'',
                   Str (interpolatePath sd (path (self w1)) (archive_name env (self w1) ''simulation'')),
                   Str (interpolatePath sd (path (self w1)) ''{studyDir}'')])
             (interpolatePath sd (path (self w1)) (path_resolve (processCwd env) [studiesDir env]))
           \<in> set (new_events w1 (snd (startSimulation env simNodeRef w)))"
    if acc: "accepts_update env (length (trace w1)) ''simulation''"
      and nd: "files w1 (archive_name env (self w1) ''simulation'') \<noteq> Some FsDir"
      and rp: "resolve_program env ''7z'' ((files w1)(archive_name env (self w1) ''simulation'' := None))
            = Inr (script0, sd)"
      and wd: "files w1 (interpolatePath sd (path (self w1)) ''{studyDir}'') = Some FsDir"
  proof -
    let ?ev1 = "TaskUpdate ''simulation'' (o_nodeRef sm) (Str BG_TASK_STATUS_RUNNING) (Str ''compressing'')
                  (Str out) (Str err)"
    let ?w3 = "emit ?ev1 (modify_self (\<lambda>s. s\<lparr>result := Some (?r2\<lparr>o_stage := Str ''compressing''\<rparr>)\<rparr>) ?w2)"
    from acc obtain body where body: "task_reply env (length (trace w1)) ?ev1 = Inr body"
      unfolding accepts_update_def by blast
    have u: "updateSimulationTask env (Str ''compressing'') ?w2
        = (Resolved (empty_obj\<lparr>o_nodeRef := o_nodeRef sm, o_status := o_status body\<rparr>), ?w3)"
      using body o
      by (simp add: updateSimulationTask_def simulationTaskUpdate_def then_p_def arendel_call_def
          resolve_def modify_self_def emit_def Let_def)
    have f3: "files ?w3 = files w1" "path (self ?w3) = path (self w1)"
      "archive_name env (self ?w3) ''simulation'' = archive_name env (self w1) ''simulation''"
      "trace ?w3 = trace w1 @ [?ev1]"
      by (simp_all add: emit_def modify_self_def archive_name_def)
    have "?rest ?w2 = then_p (compress env STUDY_STEP_SIMULATION None) (\<lambda>filename. resolve (Str filename)) ?w3"
      by (rule then_p_step [of "updateSimulationTask env (Str ''compressing'')"]) (rule u)
    with r3 have "w3 = snd (then_p (compress env STUDY_STEP_SIMULATION None) (\<lambda>filename. resolve (Str filename)) ?w3)"
      by simp
    then have w3: "w3 = snd (compress env STUDY_STEP_SIMULATION None ?w3)"
      by (simp only: then_resolve_snd)
    from compress_spawns [of ?w3 env "''simulation''" script0 sd] nd rp wd
    have "trace w3 = trace w1 @ [?ev1,
       Spawn (if ends_with script0 ''.py'' then airetd_python env else script0)
             ((if ends_with script0 ''.py'' then [Str script0] else [])
                @ [Str ''a'', Str ''-r'',
                   Str (interpolatePath sd (path (self w1)) (archive_name env (self w1) ''simulation'')),
                   Str (interpolatePath sd (path (self w1)) ''{studyDir}'')])
             (interpolatePath sd (path (self w1)) (path_resolve (processCwd env) [studiesDir env]))]"
      unfolding w3 f3 by simp
    with v4 fr(3) fin show ?thesis by (auto simp: new_events_def)
  qed
  from a b show ?thesis by blast
qed

theorem diverged_simulation_reports_failed_witness:
  "studies example_world (nodeRef (self example_world)) = None
   \<and> fst (startSimulation_until_exit example_env (Str ''workspace://SpacesStore/sim-1'')
          (startSimulation_init example_world))
       = Resolved (empty_obj\<lparr>o_stdout := Str ''Time = 1'',
                    o_stderr := Str (''le calcul a diverg'' @ [CHR 0xC3, CHR 0xA9])\<rparr>)
   \<and> REGEXP_SIMULATION_ERROR (''le calcul a diverg'' @ [CHR 0xC3, CHR 0xA9])
   \<and> update_status (last (trace (snd (startSimulation example_env
          (Str ''workspace://SpacesStore/sim-1'') example_world)))) = Some (Str ''FAILED'')
   \<and> Spawn ''7z'' [Str ''a'', Str ''-r'', Str ''/srv/studies/e72baac6-simulation.7z'',
          Str ''/srv/studies/e72baac6''] ''/srv/studies''
       \<in> set (new_events
            (snd (startSimulation_until_exit example_env (Str ''workspace://SpacesStore/sim-1'')
                    (startSimulation_init example_world)))
            (snd (startSimulation example_env (Str ''workspace://SpacesStore/sim-1'') example_world)))"
proof -
  let ?ref = "Str ''workspace://SpacesStore/sim-1''"
  let ?res = "empty_obj\<lparr>o_stdout := Str ''Time = 1'',
                o_stderr := Str (''le calcul a diverg'' @ [CHR 0xC3, CHR 0xA9])\<rparr>"
  define w1 where "w1 = snd (startSimulation_until_exit example_env ?ref (startSimulation_init example_world))"
  have a1: "studies example_world (nodeRef (self example_world)) = None"
    by (simp add: example_world_def)
  have e: "startSimulation_until_exit example_env ?ref (startSimulation_init example_world) = (Resolved ?res, w1)
      \<and> files w1 ''/srv/studies/e72baac6-simulation.7z'' = None
      \<and> files w1 ''/srv/studies/e72baac6'' = Some FsDir
      \<and> path (self w1) = ''/srv/studies/e72baac6''
      \<and> nodeId (self w1) = ''e72baac6''"
    using example_until_exit unfolding w1_def by (simp split: prod.splits)
  have dv: "REGEXP_SIMULATION_ERROR (''le calcul a diverg'' @ [CHR 0xC3, CHR 0xA9])"
    by (simp add: REGEXP_SIMULATION_ERROR_def)
  have a4: "accepts_update example_env (length (trace w1)) ''simulation''"
    by (simp add: accepts_update_def example_env_def example_task_reply_def)
  have an: "archive_name example_env (self w1) ''simulation'' = ''/srv/studies/e72baac6-simulation.7z''"
    using e by (simp add: archive_name_def example_env_def example_paths)
  have rp: "resolve_program example_env ''7z'' fs = Inr (''7z'', ''/srv/studies'')" for fs
    by (simp add: resolve_program_def example_env_def example_paths)
  have pr: "path_resolve (processCwd example_env) [studiesDir example_env] = ''/srv/studies''"
    by (simp add: example_env_def example_paths)
  have ew: "ends_with ''7z'' ''.py'' = False" by (simp add: ends_with_def)
  show ?thesis
    using diverged_simulation_reports_failed [of example_world example_env ?ref ?res w1 "''7z''" "''/srv/studies''"] a1 e dv a4 rp
    by (simp add: an pr ew example_interpolations w1_def [symmetric])
qed

end
